theory Spec2Isabelle
  imports Main "HOL-Library.Word"
begin

unbundle bit_operations_syntax

section \<open>The XBee packet engine of the Make Controller firmware (xbee.c)\<close>

text \<open>
  A shallow embedding of \<^verbatim>\<open>firmware/trunk/controller/makingthings/xbee.c\<close>: the receiver
  \<^verbatim>\<open>XBee_GetPacket\<close>, the sender \<^verbatim>\<open>XBee_SendPacket\<close>, \<^verbatim>\<open>XBee_ResetPacket\<close>, the typed
  readers \<^verbatim>\<open>XBee_Read*Packet\<close>, \<^verbatim>\<open>XBee_GetIOValues\<close>, the constructors
  \<^verbatim>\<open>XBee_CreateTX16Packet\<close> and \<^verbatim>\<open>XBee_CreateTX64Packet\<close>, and
  \<^verbatim>\<open>XBeeConfig_SetPacketApiMode\<close>. Serial port and scheduler are the explicit inputs and
  outputs of the functions: the characters that can be read, the characters written, the
  calls made.
\<close>

subsection \<open>What xbee.h declares\<close>

type_synonym uint8 = "8 word"
type_synonym uint16 = "16 word"
type_synonym uint64 = "64 word"

text \<open>The receive states \<^verbatim>\<open>XBEE_PACKET_RX_*\<close>, the five labels of the receiver's switch.\<close>

datatype rx_state =
  XBEE_PACKET_RX_START
  | XBEE_PACKET_RX_LENGTH_1
  | XBEE_PACKET_RX_LENGTH_2
  | XBEE_PACKET_RX_PAYLOAD
  | XBEE_PACKET_RX_CRC

text \<open>
  \<^verbatim>\<open>XBeePacket\<close>. The functions walk a \<^verbatim>\<open>uint8*\<close> over the packet from its first byte, so the
  kind tag and the union of the typed layouts that follows it are one byte list \<open>mem\<close>
  (offset 0 is \<^verbatim>\<open>apiId\<close>), and \<^verbatim>\<open>dataPtr\<close> is an offset into it. The bookkeeping fields
  behind the union are record fields; \<^verbatim>\<open>length\<close> and \<^verbatim>\<open>index\<close> are C \<^verbatim>\<open>int\<close>s.
  The receiver and the constructors write through such a pointer: a write behind the end
  of \<open>mem\<close> would go through the byte images of the bookkeeping fields, and is the error
  \<open>OutOfBounds\<close>. The sender only reads: behind \<open>mem\<close> it reads the bytes of those
  fields (\<open>XBeePacket_tail_byte\<close> below) and \<open>OutOfBounds\<close> is a read behind the whole
  packet object.
\<close>

record XBeePacket =
  mem :: "uint8 list"
  crc :: uint8
  dataPtr :: nat
  rxState :: rx_state
  length_pk :: int
  index :: int

definition apiId :: "XBeePacket \<Rightarrow> uint8" where
  "apiId packet = mem packet ! 0"

text \<open>
  Modelled from the spec: the header \<^verbatim>\<open>xbee.h\<close> is not among the sources, so the macros and
  enumerators that \<^verbatim>\<open>xbee.c\<close> uses are the fields of a record that every function of the
  model takes as its first argument. The spec names them only as "the start-of-frame byte
  value", "the fixed maximum buffer capacity" and the packet kinds of its section 3; no
  theorem below depends on a value unless its statement fixes one. The struct declaration
  of the header also fixes what lies behind the union in a packet object, the fields
  \<^verbatim>\<open>crc\<close>, \<^verbatim>\<open>dataPtr\<close>, \<^verbatim>\<open>rxState\<close>, \<^verbatim>\<open>length\<close> and \<^verbatim>\<open>index\<close> of the spec's "transient
  parsing state": \<open>XBeePacket_tail_size\<close> is the number of their bytes and
  \<open>XBeePacket_tail_byte h packet k\<close> the \<open>k\<close>-th of them for the values the packet holds.
\<close>

record xbee_h =
  XBEE_PACKET_STARTBYTE :: uint8
  XBEE_MAX_PACKET_SIZE :: int
  XBEE_INPUTS :: nat
  XBEE_TX64 :: uint8
  XBEE_TX16 :: uint8
  XBEE_TXSTATUS :: uint8
  XBEE_RX64 :: uint8
  XBEE_RX16 :: uint8
  XBEE_ATCOMMAND :: uint8
  XBEE_ATCOMMANDQ :: uint8
  XBEE_ATCOMMANDRESPONSE :: uint8
  XBEE_IO64 :: uint8
  XBEE_IO16 :: uint8
  XBeePacket_tail_size :: nat
  XBeePacket_tail_byte :: "XBeePacket \<Rightarrow> nat \<Rightarrow> uint8"

text \<open>
  The kind tags are the labels of one \<^verbatim>\<open>switch\<close> in \<^verbatim>\<open>XBee_SendPacket\<close>, which compiles only
  when they differ from each other.
\<close>

definition send_kinds :: "xbee_h \<Rightarrow> uint8 list" where
  "send_kinds h =
     [XBEE_RX64 h, XBEE_TX64 h, XBEE_RX16 h, XBEE_TX16 h, XBEE_ATCOMMANDRESPONSE h,
      XBEE_TXSTATUS h, XBEE_ATCOMMAND h, XBEE_ATCOMMANDQ h]"

text \<open>
  The values used where a theorem evaluates the code on a concrete input: the delimiter
  and the API identifiers of the radio's API frame format, a 100-byte payload buffer, and
  15 channel-indicator bits (9 digital lines followed by 6 analog lines, the split that
  \<^verbatim>\<open>XBee_GetIOValues\<close> makes at \<^verbatim>\<open>i < 9\<close>). Behind the union it has 17 bytes, the checksum
  and four 4-byte fields; the checksum byte reads as the field stands, and the other
  sixteen read as zero here, since no evaluation below looks at them.
\<close>

definition xbee_std :: xbee_h where
  "xbee_std =
     \<lparr>XBEE_PACKET_STARTBYTE = 0x7E, XBEE_MAX_PACKET_SIZE = 100, XBEE_INPUTS = 15,
      XBEE_TX64 = 0x00, XBEE_TX16 = 0x01, XBEE_TXSTATUS = 0x89, XBEE_RX64 = 0x80,
      XBEE_RX16 = 0x81, XBEE_ATCOMMAND = 0x08, XBEE_ATCOMMANDQ = 0x09,
      XBEE_ATCOMMANDRESPONSE = 0x88, XBEE_IO64 = 0x82, XBEE_IO16 = 0x83,
      XBeePacket_tail_size = 17,
      XBeePacket_tail_byte = (\<lambda>packet k. if k = 0 then crc packet else 0)\<rparr>"

datatype error = SubsystemInactive | OutOfBounds

subsection \<open>XBee\_ResetPacket\<close>

definition XBee_ResetPacket :: "XBeePacket \<Rightarrow> XBeePacket" where
  "XBee_ResetPacket packet =
     packet\<lparr>dataPtr := 0, crc := 0, rxState := XBEE_PACKET_RX_START, length_pk := 0,
            index := 0, mem := (mem packet)[0 := 0]\<rparr>"

subsection \<open>XBee\_GetPacket\<close>

text \<open>
  The body of the receive loop for one character \<open>newChar\<close>. The result
  \<open>(None, packet)\<close> goes round the loop again, \<open>(Some r, packet)\<close> is \<^verbatim>\<open>return r\<close>.
\<close>

definition XBee_GetPacket_char ::
  "xbee_h \<Rightarrow> XBeePacket \<Rightarrow> uint8 \<Rightarrow> error + (int option \<times> XBeePacket)" where
  "XBee_GetPacket_char h packet0 newChar =
     (let packet =
            (if newChar = XBEE_PACKET_STARTBYTE h \<and> rxState packet0 \<noteq> XBEE_PACKET_RX_START
             then XBee_ResetPacket packet0 else packet0)
      in case rxState packet of
           XBEE_PACKET_RX_START \<Rightarrow>
             Inr (None,
               if newChar = XBEE_PACKET_STARTBYTE h
               then packet\<lparr>rxState := XBEE_PACKET_RX_LENGTH_1\<rparr> else packet)
         | XBEE_PACKET_RX_LENGTH_1 \<Rightarrow>
             Inr (None,
               packet\<lparr>length_pk := push_bit 8 (uint newChar),
                      rxState := XBEE_PACKET_RX_LENGTH_2\<rparr>)
         | XBEE_PACKET_RX_LENGTH_2 \<Rightarrow>
             (let l = length_pk packet + uint newChar
              in Inr (None,
                   packet\<lparr>length_pk :=
                            (if l > XBEE_MAX_PACKET_SIZE h then XBEE_MAX_PACKET_SIZE h else l),
                          rxState := XBEE_PACKET_RX_PAYLOAD\<rparr>))
         | XBEE_PACKET_RX_PAYLOAD \<Rightarrow>
             (if dataPtr packet < length (mem packet)
              then
                (let stored = packet\<lparr>mem := (mem packet)[dataPtr packet := newChar],
                                     dataPtr := dataPtr packet + 1,
                                     index := index packet + 1\<rparr>;
                     counted =
                       (if index stored \<ge> length_pk stored
                        then stored\<lparr>rxState := XBEE_PACKET_RX_CRC\<rparr> else stored)
                 in Inr (None, counted\<lparr>crc := crc counted + newChar\<rparr>))
              else Inl OutOfBounds)
         | XBEE_PACKET_RX_CRC \<Rightarrow>
             (let summed = packet\<lparr>crc := crc packet + newChar,
                                  rxState := XBEE_PACKET_RX_START\<rparr>
              in if crc summed = 0xFF then Inr (Some 1, summed)
                 else Inr (Some 0, XBee_ResetPacket summed)))"

text \<open>
  The loop \<^verbatim>\<open>while( Serial_GetReadable( ) )\<close> over the characters the serial port holds: it
  ends when none is left (\<^verbatim>\<open>return 0\<close>) or when the body returns. The third component of
  the result is what stays unread in the port.
\<close>

fun XBee_GetPacket_loop ::
  "xbee_h \<Rightarrow> XBeePacket \<Rightarrow> uint8 list \<Rightarrow> error + (int \<times> XBeePacket \<times> uint8 list)" where
  "XBee_GetPacket_loop h packet [] = Inr (0, packet, [])"
| "XBee_GetPacket_loop h packet (newChar # serial) =
     (case XBee_GetPacket_char h packet newChar of
        Inl e \<Rightarrow> Inl e
      | Inr (Some r, packet') \<Rightarrow> Inr (r, packet', serial)
      | Inr (None, packet') \<Rightarrow> XBee_GetPacket_loop h packet' serial)"

text \<open>
  \<open>active\<close> says whether \<^verbatim>\<open>XBee_SetActive( 1 )\<close> returns \<^verbatim>\<open>CONTROLLER_OK\<close>; when it does not,
  the function returns \<^verbatim>\<open>CONTROLLER_ERROR_SUBSYSTEM_INACTIVE\<close> before it touches the packet
  or the port.
\<close>

definition XBee_GetPacket ::
  "xbee_h \<Rightarrow> bool \<Rightarrow> XBeePacket \<Rightarrow> uint8 list \<Rightarrow> error + (int \<times> XBeePacket \<times> uint8 list)" where
  "XBee_GetPacket h active packet serial =
     (if \<not> active then Inl SubsystemInactive else XBee_GetPacket_loop h packet serial)"

text \<open>
  The same bytes offered one per call: each call finds a single readable character, the
  packet is handed from call to call without a reset, and the result is that of the last
  call (\<open>r\<close> when there is no byte and so no call).
\<close>

fun XBee_GetPacket_each ::
  "xbee_h \<Rightarrow> int \<Rightarrow> XBeePacket \<Rightarrow> uint8 list \<Rightarrow> error + (int \<times> XBeePacket)" where
  "XBee_GetPacket_each h r packet [] = Inr (r, packet)"
| "XBee_GetPacket_each h r packet (newChar # later) =
     (case XBee_GetPacket h True packet [newChar] of
        Inl e \<Rightarrow> Inl e
      | Inr (r', packet', _) \<Rightarrow> XBee_GetPacket_each h r' packet' later)"

subsection \<open>XBee\_SendPacket\<close>

text \<open>The switch on \<^verbatim>\<open>packet->apiId\<close> that turns \<^verbatim>\<open>datalength\<close> into \<^verbatim>\<open>size\<close>.\<close>

definition XBee_SendPacket_size :: "xbee_h \<Rightarrow> uint8 \<Rightarrow> int \<Rightarrow> int" where
  "XBee_SendPacket_size h kind datalength =
     (if kind = XBEE_RX64 h \<or> kind = XBEE_TX64 h then datalength + 11
      else if kind = XBEE_RX16 h \<or> kind = XBEE_TX16 h \<or> kind = XBEE_ATCOMMANDRESPONSE h
      then datalength + 5
      else if kind = XBEE_TXSTATUS h then 3
      else if kind = XBEE_ATCOMMAND h \<or> kind = XBEE_ATCOMMANDQ h then datalength + 4
      else 0)"

text \<open>
  \<^verbatim>\<open>while( size-- ) { Serial_SetChar( *p ); packet->crc += *p++; }\<close> with \<open>p\<close> an offset into
  the packet object and \<^verbatim>\<open>size\<close> the C \<^verbatim>\<open>int\<close>: the characters written, and the packet with
  the checksum field as the loop leaves it. The loop reads the kind tag and the union from
  \<open>mem\<close> and, behind them, the bytes of the bookkeeping fields, the checksum field among
  them as it stands at that moment. It has no exit of its own but \<^verbatim>\<open>size\<close> reaching 0; what
  the model adds is the end of the packet object, where C gives the read no meaning: there
  the result is what was written so far and \<open>OutOfBounds\<close>. A negative \<^verbatim>\<open>size\<close> counts down
  without reaching 0 and ends so.
\<close>

function XBee_SendPacket_loop ::
  "xbee_h \<Rightarrow> XBeePacket \<Rightarrow> nat \<Rightarrow> int \<Rightarrow> uint8 list \<times> (error + XBeePacket)" where
  "XBee_SendPacket_loop h packet p size_left =
     (if size_left = 0 then ([], Inr packet)
      else if p < length (mem packet) + XBeePacket_tail_size h
      then
        (let b = (if p < length (mem packet) then mem packet ! p
                  else XBeePacket_tail_byte h packet (p - length (mem packet)))
         in case XBee_SendPacket_loop h (packet\<lparr>crc := crc packet + b\<rparr>) (p + 1)
                   (size_left - 1) of
              (sent, result) \<Rightarrow> (b # sent, result))
      else ([], Inl OutOfBounds))"
  by pat_completeness auto
termination
  by (relation "measure (\<lambda>(h, packet, p, size_left).
        length (mem packet) + XBeePacket_tail_size h - p)") auto

declare XBee_SendPacket_loop.simps [simp del]

text \<open>
  The result is the characters handed to \<^verbatim>\<open>Serial_SetChar\<close> in order, and how the call
  ends: with the return value \<^verbatim>\<open>CONTROLLER_OK\<close> (0) and the packet with its checksum field,
  with \<^verbatim>\<open>CONTROLLER_ERROR_SUBSYSTEM_INACTIVE\<close> before anything is written, or behind the
  packet object. The start byte and the two length bytes are written before the loop in
  every active call.
\<close>

definition XBee_SendPacket ::
  "xbee_h \<Rightarrow> bool \<Rightarrow> XBeePacket \<Rightarrow> int \<Rightarrow> uint8 list \<times> (error + int \<times> XBeePacket)" where
  "XBee_SendPacket h active packet datalength =
     (if \<not> active then ([], Inl SubsystemInactive)
      else
        (let size_pk = XBee_SendPacket_size h (apiId packet) datalength;
             header = [XBEE_PACKET_STARTBYTE h, word_of_int (drop_bit 8 size_pk AND 0xFF),
                       word_of_int (size_pk AND 0xFF)]
         in case XBee_SendPacket_loop h (packet\<lparr>crc := 0\<rparr>) 0 size_pk of
              (sent, Inl e) \<Rightarrow> (header @ sent, Inl e)
            | (sent, Inr packet') \<Rightarrow>
                (header @ sent @ [0xFF - crc packet'], Inr (0, packet'))))"

text \<open>The payload length a frame declares: the two bytes behind the start byte, big-endian.\<close>

definition declared_length :: "uint8 list \<Rightarrow> int" where
  "declared_length frame = push_bit 8 (uint (frame ! 1)) + uint (frame ! 2)"

text \<open>
  The frame of a payload as \<^verbatim>\<open>XBee_SendPacket\<close> writes it (lemma \<open>XBee_SendPacket_frame\<close>):
  start byte, the payload length high byte first, the payload, and \<^verbatim>\<open>0xFF\<close> minus the sum
  of the payload.
\<close>

definition XBee_frame :: "xbee_h \<Rightarrow> uint8 list \<Rightarrow> uint8 list" where
  "XBee_frame h payload =
     [XBEE_PACKET_STARTBYTE h, word_of_int (drop_bit 8 (int (length payload)) AND 0xFF),
      word_of_int (int (length payload) AND 0xFF)] @ payload @ [0xFF - sum_list payload]"

subsection \<open>The typed layouts of the union\<close>

text \<open>
  Modelled from the spec: the structs \<^verbatim>\<open>tx16\<close>, \<^verbatim>\<open>tx64\<close>, \<^verbatim>\<open>rx16\<close>, \<^verbatim>\<open>rx64\<close>, \<^verbatim>\<open>io16\<close>,
  \<^verbatim>\<open>io64\<close>, \<^verbatim>\<open>atResponse\<close> and \<^verbatim>\<open>txStatus\<close> are declared in \<^verbatim>\<open>xbee.h\<close>. Their fields lie
  behind the kind tag in the order and with the sizes of the table in section 3 of the spec,
  without padding; the sizes are those \<^verbatim>\<open>XBee_SendPacket\<close> counts in its comments. A field
  that is an array is its offset in the packet. In C every one of these fields lies inside
  the packet object; a field is read as \<open>mem xbp ! offset\<close>, which is that byte for every
  packet whose \<open>mem\<close> covers the layout, as a packet variable does.
\<close>

definition tx16_frameID :: nat where "tx16_frameID = 1"
definition tx16_destination :: nat where "tx16_destination = 2"
definition tx16_options :: nat where "tx16_options = 4"
definition tx16_data :: nat where "tx16_data = 5"

definition tx64_frameID :: nat where "tx64_frameID = 1"
definition tx64_destination :: nat where "tx64_destination = 2"
definition tx64_options :: nat where "tx64_options = 10"
definition tx64_data :: nat where "tx64_data = 11"

definition rx16_source :: nat where "rx16_source = 1"
definition rx16_rssi :: nat where "rx16_rssi = 3"
definition rx16_options :: nat where "rx16_options = 4"
definition rx16_data :: nat where "rx16_data = 5"

definition rx64_source :: nat where "rx64_source = 1"
definition rx64_rssi :: nat where "rx64_rssi = 9"
definition rx64_options :: nat where "rx64_options = 10"
definition rx64_data :: nat where "rx64_data = 11"

definition io16_source :: nat where "io16_source = 1"
definition io16_rssi :: nat where "io16_rssi = 3"
definition io16_options :: nat where "io16_options = 4"
definition io16_channelIndicators :: nat where "io16_channelIndicators = 6"
definition io16_data :: nat where "io16_data = 8"

definition io64_source :: nat where "io64_source = 1"
definition io64_rssi :: nat where "io64_rssi = 9"
definition io64_options :: nat where "io64_options = 10"
definition io64_channelIndicators :: nat where "io64_channelIndicators = 12"
definition io64_data :: nat where "io64_data = 14"

definition atResponse_frameID :: nat where "atResponse_frameID = 1"
definition atResponse_command :: nat where "atResponse_command = 2"
definition atResponse_status :: nat where "atResponse_status = 4"
definition atResponse_value :: nat where "atResponse_value = 5"

definition txStatus_frameID :: nat where "txStatus_frameID = 1"
definition txStatus_status :: nat where "txStatus_status = 2"

subsection \<open>The typed readers\<close>

text \<open>
  An output parameter is \<open>None\<close> for a \<^verbatim>\<open>NULL\<close> argument and \<open>Some v\<close> for a pointer to a
  variable of the caller that holds \<open>v\<close>; a reader returns its boolean result and the
  variables as it leaves them. \<open>out ptr v\<close> is \<^verbatim>\<open>if( ptr ) *ptr = v;\<close>. A \<^verbatim>\<open>uint8*\<close> into
  the packet is its offset.
\<close>

definition out :: "'a option \<Rightarrow> 'a \<Rightarrow> 'a option" where
  "out ptr v = (case ptr of None \<Rightarrow> None | Some _ \<Rightarrow> Some v)"

definition XBee_ReadRX16Packet ::
  "xbee_h \<Rightarrow> XBeePacket \<Rightarrow> uint16 option \<Rightarrow> uint8 option \<Rightarrow> uint8 option \<Rightarrow> nat option
     \<Rightarrow> uint8 option
     \<Rightarrow> bool \<times> uint16 option \<times> uint8 option \<times> uint8 option \<times> nat option \<times> uint8 option" where
  "XBee_ReadRX16Packet h xbp srcAddress sigstrength options data datalength =
     (if apiId xbp \<noteq> XBEE_RX16 h
      then (False, srcAddress, sigstrength, options, data, datalength)
      else (True,
            out srcAddress
              (push_bit 8 (ucast (mem xbp ! rx16_source)) + ucast (mem xbp ! (rx16_source + 1))),
            out sigstrength (mem xbp ! rx16_rssi),
            out options (mem xbp ! rx16_options),
            out data rx16_data,
            out datalength (word_of_int (length_pk xbp - 5))))"

text \<open>
  \<^verbatim>\<open>for( i = 0; i < 8; i++ ) { *srcAddress <<= i*8; *srcAddress += source[i]; }\<close> on the
  caller's \<^verbatim>\<open>uint64\<close>, which the loop does not clear first.
\<close>

definition XBee_address64 :: "uint8 list \<Rightarrow> nat \<Rightarrow> uint64 \<Rightarrow> uint64" where
  "XBee_address64 m source a =
     fold (\<lambda>i a. push_bit (i * 8) a + ucast (m ! (source + i))) [0..<8] a"

definition XBee_ReadRX64Packet ::
  "xbee_h \<Rightarrow> XBeePacket \<Rightarrow> uint64 option \<Rightarrow> uint8 option \<Rightarrow> uint8 option \<Rightarrow> nat option
     \<Rightarrow> uint8 option
     \<Rightarrow> bool \<times> uint64 option \<times> uint8 option \<times> uint8 option \<times> nat option \<times> uint8 option" where
  "XBee_ReadRX64Packet h xbp srcAddress sigstrength options data datalength =
     (if apiId xbp \<noteq> XBEE_RX64 h
      then (False, srcAddress, sigstrength, options, data, datalength)
      else (True,
            map_option (XBee_address64 (mem xbp) rx64_source) srcAddress,
            out sigstrength (mem xbp ! rx64_rssi),
            out options (mem xbp ! rx64_options),
            out data rx64_data,
            out datalength (word_of_int (length_pk xbp - 11))))"

subsection \<open>XBee\_GetIOValues\<close>

text \<open>
  The loop \<^verbatim>\<open>for( i = 0; i < XBEE_INPUTS; i++ )\<close> over the channel indicators, with its
  locals \<^verbatim>\<open>channelIndicators\<close>, \<^verbatim>\<open>digitalins\<close> and the read pointer \<^verbatim>\<open>p\<close> (an offset into
  the packet) and the caller's array \<^verbatim>\<open>inputs\<close>. A read behind the packet and a write
  behind the caller's array are \<open>OutOfBounds\<close>.
\<close>

fun XBee_GetIOValues_loop ::
  "uint8 list \<Rightarrow> nat list \<Rightarrow> int \<Rightarrow> int \<Rightarrow> nat \<Rightarrow> int list \<Rightarrow> error + int list" where
  "XBee_GetIOValues_loop m [] channelIndicators digitalins p inputs = Inr inputs"
| "XBee_GetIOValues_loop m (i # later) channelIndicators digitalins p inputs =
     (let enabled = (channelIndicators AND 1 \<noteq> 0);
          shifted = drop_bit 1 channelIndicators
      in if i < 9
         then
           (if enabled
            then
              (if digitalins = 0
               then
                 (if p + 1 < length m \<and> i < length inputs
                  then
                    (let fresh = push_bit 8 (uint (m ! p)) OR uint (m ! (p + 1))
                     in XBee_GetIOValues_loop m later shifted fresh (p + 2)
                          (inputs[i := (drop_bit i fresh AND 1) * 1023]))
                  else Inl OutOfBounds)
               else if i < length inputs
               then XBee_GetIOValues_loop m later shifted digitalins p
                      (inputs[i := (drop_bit i digitalins AND 1) * 1023])
               else Inl OutOfBounds)
            else if i < length inputs
            then XBee_GetIOValues_loop m later shifted digitalins p (inputs[i := 0])
            else Inl OutOfBounds)
         else
           (if enabled
            then
              (if p + 1 < length m \<and> i - 9 < length inputs
               then XBee_GetIOValues_loop m later shifted digitalins (p + 2)
                      (inputs[i - 9 := push_bit 8 (uint (m ! p)) OR uint (m ! (p + 1))])
               else Inl OutOfBounds)
            else if i - 9 < length inputs
            then XBee_GetIOValues_loop m later shifted digitalins p (inputs[i - 9 := 0])
            else Inl OutOfBounds))"

definition XBee_GetIOValues ::
  "xbee_h \<Rightarrow> XBeePacket \<Rightarrow> int list \<Rightarrow> error + (bool \<times> int list)" where
  "XBee_GetIOValues h packet inputs =
     (if apiId packet = XBEE_IO16 h \<or> apiId packet = XBEE_IO64 h
      then
        (let (p, channelIndicators) =
               (if apiId packet = XBEE_IO16 h
                then (io16_data,
                      push_bit 8 (uint (mem packet ! io16_channelIndicators))
                        OR uint (mem packet ! (io16_channelIndicators + 1)))
                else (io64_data,
                      push_bit 8 (uint (mem packet ! io64_channelIndicators))
                        OR uint (mem packet ! (io64_channelIndicators + 1))))
         in case XBee_GetIOValues_loop (mem packet) [0..<XBEE_INPUTS h]
                   channelIndicators 0 p inputs of
              Inl e \<Rightarrow> Inl e
            | Inr inputs' \<Rightarrow> Inr (True, inputs'))
      else Inr (False, inputs))"

definition XBee_ReadIO16Packet ::
  "xbee_h \<Rightarrow> XBeePacket \<Rightarrow> uint16 option \<Rightarrow> uint8 option \<Rightarrow> uint8 option \<Rightarrow> int list option
     \<Rightarrow> error + (bool \<times> uint16 option \<times> uint8 option \<times> uint8 option \<times> int list option)" where
  "XBee_ReadIO16Packet h xbp srcAddress sigstrength options samples =
     (if apiId xbp \<noteq> XBEE_IO16 h
      then Inr (False, srcAddress, sigstrength, options, samples)
      else
        (let srcAddress' =
               out srcAddress
                 (push_bit 8 (ucast (mem xbp ! io16_source)) + ucast (mem xbp ! (io16_source + 1)));
             sigstrength' = out sigstrength (mem xbp ! io16_rssi);
             options' = out options (mem xbp ! io16_options)
         in case samples of
              None \<Rightarrow> Inr (True, srcAddress', sigstrength', options', None)
            | Some inputs \<Rightarrow>
                (case XBee_GetIOValues h xbp inputs of
                   Inl e \<Rightarrow> Inl e
                 | Inr (ok, inputs') \<Rightarrow>
                     if \<not> ok then Inr (False, srcAddress', sigstrength', options', Some inputs')
                     else Inr (True, srcAddress', sigstrength', options', Some inputs'))))"

text \<open>The source tests \<^verbatim>\<open>xbp->apiId != XBEE_RX64\<close> here.\<close>

definition XBee_ReadIO64Packet ::
  "xbee_h \<Rightarrow> XBeePacket \<Rightarrow> uint64 option \<Rightarrow> uint8 option \<Rightarrow> uint8 option \<Rightarrow> int list option
     \<Rightarrow> error + (bool \<times> uint64 option \<times> uint8 option \<times> uint8 option \<times> int list option)" where
  "XBee_ReadIO64Packet h xbp srcAddress sigstrength options samples =
     (if apiId xbp \<noteq> XBEE_RX64 h
      then Inr (False, srcAddress, sigstrength, options, samples)
      else
        (let srcAddress' = map_option (XBee_address64 (mem xbp) io64_source) srcAddress;
             sigstrength' = out sigstrength (mem xbp ! io64_rssi);
             options' = out options (mem xbp ! io64_options)
         in case samples of
              None \<Rightarrow> Inr (True, srcAddress', sigstrength', options', None)
            | Some inputs \<Rightarrow>
                (case XBee_GetIOValues h xbp inputs of
                   Inl e \<Rightarrow> Inl e
                 | Inr (ok, inputs') \<Rightarrow>
                     if \<not> ok then Inr (False, srcAddress', sigstrength', options', Some inputs')
                     else Inr (True, srcAddress', sigstrength', options', Some inputs'))))"

text \<open>
  \<^verbatim>\<open>command\<close> is a \<^verbatim>\<open>char*\<close> passed by value: \<^verbatim>\<open>if( command ) command = ...\<close> changes the
  reader's own copy of the pointer, so the characters of the caller that it points to come
  back as they went in.
\<close>

definition XBee_ReadAtResponsePacket ::
  "xbee_h \<Rightarrow> XBeePacket \<Rightarrow> uint8 option \<Rightarrow> string option \<Rightarrow> uint8 option \<Rightarrow> nat option
     \<Rightarrow> bool \<times> uint8 option \<times> string option \<times> uint8 option \<times> nat option" where
  "XBee_ReadAtResponsePacket h xbp frameID command status data =
     (if apiId xbp \<noteq> XBEE_ATCOMMANDRESPONSE h then (False, frameID, command, status, data)
      else (True,
            out frameID (mem xbp ! atResponse_frameID),
            command,
            out status (mem xbp ! atResponse_status),
            out data atResponse_value))"

definition XBee_ReadTXStatusPacket ::
  "xbee_h \<Rightarrow> XBeePacket \<Rightarrow> uint8 option \<Rightarrow> uint8 option
     \<Rightarrow> bool \<times> uint8 option \<times> uint8 option" where
  "XBee_ReadTXStatusPacket h xbp frameID status =
     (if apiId xbp \<noteq> XBEE_TXSTATUS h then (False, frameID, status)
      else (True,
            out frameID (mem xbp ! txStatus_frameID),
            out status (mem xbp ! txStatus_status)))"

subsection \<open>XBeeConfig\_SetPacketApiMode\<close>

text \<open>
  The calls the function makes on the serial port and on the scheduler, in order:
  \<^verbatim>\<open>Serial_Write( buf, strlen(buf), 0 )\<close> with the characters written and \<^verbatim>\<open>Sleep( ms )\<close>.
\<close>

datatype call = Serial_Write string | Sleep nat

text \<open>The conversion \<^verbatim>\<open>%x\<close> of \<^verbatim>\<open>snprintf\<close>, and \<^verbatim>\<open>snprintf( buf, n, ... )\<close> cutting at \<open>n - 1\<close>.\<close>

definition hex_digit :: "nat \<Rightarrow> char" where
  "hex_digit d = ''0123456789abcdef'' ! d"

function hex :: "nat \<Rightarrow> string" where
  "hex n = (if n < 16 then [hex_digit n] else hex (n div 16) @ [hex_digit (n mod 16)])"
  by pat_completeness auto
termination
  by (relation "measure id") auto

definition snprintf :: "nat \<Rightarrow> string \<Rightarrow> string" where
  "snprintf n formatted = take (n - 1) formatted"

definition XBeeConfig_SetPacketApiMode :: "bool \<Rightarrow> call list" where
  "XBeeConfig_SetPacketApiMode active =
     (if \<not> active then []
      else [Serial_Write (snprintf 50 ''+++''),
            Sleep 1025,
            Serial_Write (snprintf 50 (''ATAP '' @ hex 1 @ '',CN'' @ [CHR 0x0D]))])"

subsection \<open>XBee\_CreateTX16Packet and XBee\_CreateTX64Packet\<close>

text \<open>
  \<^verbatim>\<open>while( datalength-- ) *p++ = *data++;\<close> with \<open>p\<close> an offset into the packet and \<open>data\<close>
  the caller's buffer.
\<close>

fun XBee_Create_copy ::
  "uint8 list \<Rightarrow> nat \<Rightarrow> uint8 list \<Rightarrow> nat \<Rightarrow> error + uint8 list" where
  "XBee_Create_copy m p data 0 = Inr m"
| "XBee_Create_copy m p data (Suc left) =
     (case data of
        [] \<Rightarrow> Inl OutOfBounds
      | b # rest \<Rightarrow>
          if p < length m then XBee_Create_copy (m[p := b]) (p + 1) rest left
          else Inl OutOfBounds)"

definition XBee_CreateTX16Packet ::
  "xbee_h \<Rightarrow> XBeePacket \<Rightarrow> uint8 \<Rightarrow> uint16 \<Rightarrow> uint8 \<Rightarrow> uint8 list \<Rightarrow> uint8
     \<Rightarrow> error + (bool \<times> XBeePacket)" where
  "XBee_CreateTX16Packet h xbp frameID destination options data datalength =
     (let header =
            (mem xbp)[0 := XBEE_TX16 h, tx16_frameID := frameID,
                      tx16_destination := ucast (drop_bit 8 destination),
                      tx16_destination + 1 := ucast (destination AND 0xFF),
                      tx16_options := options]
      in case XBee_Create_copy header tx16_data data (unat datalength) of
           Inl e \<Rightarrow> Inl e
         | Inr filled \<Rightarrow> Inr (True, xbp\<lparr>mem := filled, length_pk := uint datalength + 5\<rparr>))"

text \<open>
  The source masks the shifted address with \<^verbatim>\<open>0xFF * i\<close> and sets the length to
  \<^verbatim>\<open>datalength + 5\<close> here as well.
\<close>

definition XBee_CreateTX64Packet ::
  "xbee_h \<Rightarrow> XBeePacket \<Rightarrow> uint8 \<Rightarrow> uint64 \<Rightarrow> uint8 \<Rightarrow> uint8 list \<Rightarrow> uint8
     \<Rightarrow> error + (bool \<times> XBeePacket)" where
  "XBee_CreateTX64Packet h xbp frameID destination options data datalength =
     (let header =
            fold (\<lambda>i m. m[tx64_destination + i :=
                            ucast (drop_bit (8 * i) destination AND (0xFF * of_nat i))])
              [0..<8] ((mem xbp)[0 := XBEE_TX64 h, tx64_frameID := frameID]);
          header' = header[tx64_options := options]
      in case XBee_Create_copy header' tx64_data data (unat datalength) of
           Inl e \<Rightarrow> Inl e
         | Inr filled \<Rightarrow> Inr (True, xbp\<lparr>mem := filled, length_pk := uint datalength + 5\<rparr>))"

subsection \<open>Auxiliary notions of the statements\<close>

text \<open>
  The packet after \<^verbatim>\<open>XBee_GetPacket\<close> has received a frame with the given payload into it:
  the payload lies at the start of the packet, cursor, counter and length stand at its
  size, and the checksum field holds \<^verbatim>\<open>0xFF\<close>.
\<close>

definition XBee_received :: "XBeePacket \<Rightarrow> uint8 list \<Rightarrow> XBeePacket" where
  "XBee_received packet payload =
     packet\<lparr>mem := payload @ drop (length payload) (mem packet), crc := 0xFF,
            dataPtr := length payload, rxState := XBEE_PACKET_RX_START,
            length_pk := int (length payload), index := int (length payload)\<rparr>"

text \<open>
  What holds of a packet between the characters of a reception that began at a reset
  packet: the write cursor and the byte counter agree, and the counter is below the
  clamped length while payload is expected.
\<close>

definition rx_inv :: "xbee_h \<Rightarrow> XBeePacket \<Rightarrow> bool" where
  "rx_inv h packet \<longleftrightarrow>
     int (dataPtr packet) = index packet \<and>
     (case rxState packet of
        XBEE_PACKET_RX_PAYLOAD \<Rightarrow>
          index packet < max 1 (length_pk packet) \<and>
          length_pk packet \<le> XBEE_MAX_PACKET_SIZE h
      | XBEE_PACKET_RX_CRC \<Rightarrow> index packet \<le> XBEE_MAX_PACKET_SIZE h
      | _ \<Rightarrow> index packet = 0)"

text \<open>Passing \<^verbatim>\<open>NULL\<close> for an output parameter instead of a pointer.\<close>

definition null_if :: "bool \<Rightarrow> 'a option \<Rightarrow> 'a option" where
  "null_if b ptr = (if b then None else ptr)"

text \<open>
  A packet variable for concrete evaluations: 101 bytes (the kind tag and a 100-byte
  union) that start with the given ones and are zero behind them, bookkeeping fields zero.
\<close>

definition packet_of :: "uint8 list \<Rightarrow> XBeePacket" where
  "packet_of bs =
     \<lparr>mem = bs @ replicate (101 - length bs) 0, crc = 0, dataPtr = 0,
      rxState = XBEE_PACKET_RX_START, length_pk = 0, index = 0\<rparr>"

section \<open>Properties\<close>

lemmas layout_defs =
  tx16_frameID_def tx16_destination_def tx16_options_def tx16_data_def
  tx64_frameID_def tx64_destination_def tx64_options_def tx64_data_def
  rx16_source_def rx16_rssi_def rx16_options_def rx16_data_def
  rx64_source_def rx64_rssi_def rx64_options_def rx64_data_def
  io16_source_def io16_rssi_def io16_options_def io16_channelIndicators_def io16_data_def
  io64_source_def io64_rssi_def io64_options_def io64_channelIndicators_def io64_data_def
  atResponse_frameID_def atResponse_command_def atResponse_status_def atResponse_value_def
  txStatus_frameID_def txStatus_status_def

subsection \<open>The sender\<close>

text \<open>While the loop reads inside the union it writes the bytes it reads and adds them up.\<close>

lemma XBee_SendPacket_loop_union:
  "p + n \<le> length (mem packet) \<Longrightarrow>
   XBee_SendPacket_loop h packet p (int n) =
     (take n (drop p (mem packet)),
      Inr (packet\<lparr>crc := crc packet + sum_list (take n (drop p (mem packet)))\<rparr>))"
proof (induction n arbitrary: p packet)
  case 0
  show ?case by (subst XBee_SendPacket_loop.simps) simp
next
  case (Suc n)
  then have lt: "p < length (mem packet)" by simp
  then have d: "drop p (mem packet) = mem packet ! p # drop (Suc p) (mem packet)"
    by (simp add: Cons_nth_drop_Suc)
  have "XBee_SendPacket_loop h (packet\<lparr>crc := crc packet + mem packet ! p\<rparr>) (Suc p) (int n) =
     (take n (drop (Suc p) (mem packet)),
      Inr (packet\<lparr>crc := crc packet + mem packet ! p
                           + sum_list (take n (drop (Suc p) (mem packet)))\<rparr>))"
    using Suc.IH[of "Suc p" "packet\<lparr>crc := crc packet + mem packet ! p\<rparr>"] Suc.prems
    by simp
  then show ?case
    using lt by (subst XBee_SendPacket_loop.simps) (simp add: d add.assoc Let_def)
qed

text \<open>Behind the bytes it reads inside the union the loop goes on from where it stands.\<close>

lemma XBee_SendPacket_loop_append:
  "p + n \<le> length (mem packet) \<Longrightarrow> 0 \<le> m \<Longrightarrow>
   XBee_SendPacket_loop h packet p (int n + m) =
     (case XBee_SendPacket_loop h
             (packet\<lparr>crc := crc packet + sum_list (take n (drop p (mem packet)))\<rparr>) (p + n) m of
        (sent, result) \<Rightarrow> (take n (drop p (mem packet)) @ sent, result))"
proof (induction n arbitrary: p packet)
  case 0
  show ?case by (simp split: prod.split)
next
  case (Suc n)
  then have lt: "p < length (mem packet)" by simp
  then have d: "drop p (mem packet) = mem packet ! p # drop (Suc p) (mem packet)"
    by (simp add: Cons_nth_drop_Suc)
  have nz: "int (Suc n) + m \<noteq> 0" "int (Suc n) + m - 1 = int n + m"
    using Suc.prems by simp_all
  have ih: "XBee_SendPacket_loop h (packet\<lparr>crc := crc packet + mem packet ! p\<rparr>) (Suc p)
              (int n + m) =
     (case XBee_SendPacket_loop h
             (packet\<lparr>crc := crc packet + mem packet ! p
                                + sum_list (take n (drop (Suc p) (mem packet)))\<rparr>)
             (Suc p + n) m of
        (sent, result) \<Rightarrow> (take n (drop (Suc p) (mem packet)) @ sent, result))"
    using Suc.IH[of "Suc p" "packet\<lparr>crc := crc packet + mem packet ! p\<rparr>"] Suc.prems
    by simp
  show ?case
    using lt nz
    by (subst XBee_SendPacket_loop.simps)
       (simp add: ih d add.assoc Let_def split: prod.split)
qed

text \<open>The loop comes to its end only for a \<^verbatim>\<open>size\<close> that is not negative, after that many
  characters.\<close>

lemma XBee_SendPacket_loop_Inr:
  "XBee_SendPacket_loop h packet p size_left = (sent, Inr packet') \<Longrightarrow>
   0 \<le> size_left \<and> length sent = nat size_left"
proof (induction h packet p size_left arbitrary: sent rule: XBee_SendPacket_loop.induct)
  case (1 h packet p size_left)
  show ?case
  proof (cases "size_left = 0")
    case True
    with "1.prems" show ?thesis by (subst (asm) XBee_SendPacket_loop.simps) simp
  next
    case False
    show ?thesis
    proof (cases "p < length (mem packet) + XBeePacket_tail_size h")
      case inside: True
      let ?b = "if p < length (mem packet) then mem packet ! p
                else XBeePacket_tail_byte h packet (p - length (mem packet))"
      obtain s res where
        rec: "XBee_SendPacket_loop h (packet\<lparr>crc := crc packet + ?b\<rparr>) (p + 1) (size_left - 1)
                = (s, res)"
        by (cases "XBee_SendPacket_loop h (packet\<lparr>crc := crc packet + ?b\<rparr>) (p + 1)
                     (size_left - 1)")
      from "1.prems" False inside rec have "sent = ?b # s" "res = Inr packet'"
        by (subst (asm) XBee_SendPacket_loop.simps, simp add: Let_def)+
      with "1.IH"[OF False inside refl, of s] rec show ?thesis by auto
    next
      case False
      with "1.prems" \<open>size_left \<noteq> 0\<close> show ?thesis
        by (subst (asm) XBee_SendPacket_loop.simps) simp
    qed
  qed
qed


lemma and_255: "(n::int) AND 0xFF = take_bit 8 n"
proof -
  have "(0xFF::int) = mask 8" by (simp add: mask_eq_exp_minus_1)
  then show ?thesis by (simp only: take_bit_eq_mask)
qed

lemma length_bytes:
  assumes "0 \<le> n" "n < 65536"
  shows "push_bit 8 (uint (word_of_int (drop_bit 8 n AND 0xFF) :: uint8))
           + uint (word_of_int (n AND 0xFF) :: uint8) = n"
proof -
  have a: "uint (word_of_int (n AND 0xFF) :: uint8) = n mod 256"
    by (simp add: and_255 uint_word_of_int take_bit_eq_mod)
  have "drop_bit 8 n < 256" using assms by (simp add: drop_bit_eq_div)
  moreover have "0 \<le> drop_bit 8 n" using assms by simp
  ultimately have b: "uint (word_of_int (drop_bit 8 n AND 0xFF) :: uint8) = n div 256"
    by (simp add: and_255 uint_word_of_int take_bit_eq_mod drop_bit_eq_div)
  show ?thesis unfolding a b by (simp add: push_bit_eq_mult)
qed






text \<open>
  A send of a \<^verbatim>\<open>size\<close> inside the union writes the frame of the first \<^verbatim>\<open>size\<close> bytes of the
  packet, leaves their sum in the checksum field and returns 0.
\<close>

lemma XBee_SendPacket_frame:
  assumes "0 \<le> XBee_SendPacket_size h (apiId packet) datalength"
    and "nat (XBee_SendPacket_size h (apiId packet) datalength) \<le> length (mem packet)"
  shows "XBee_SendPacket h True packet datalength =
           (XBee_frame h (take (nat (XBee_SendPacket_size h (apiId packet) datalength))
                            (mem packet)),
            Inr (0, packet\<lparr>crc := sum_list (take (nat (XBee_SendPacket_size h (apiId packet)
                                                          datalength)) (mem packet))\<rparr>))"
proof -
  let ?N = "XBee_SendPacket_size h (apiId packet) datalength"
  have api: "apiId (packet\<lparr>crc := 0\<rparr>) = apiId packet" by (simp add: apiId_def)
  have N: "?N = int (nat ?N)" using assms(1) by simp
  have "XBee_SendPacket_loop h (packet\<lparr>crc := 0\<rparr>) 0 (int (nat ?N)) =
          (take (nat ?N) (drop 0 (mem (packet\<lparr>crc := 0\<rparr>))),
           Inr (packet\<lparr>crc := 0\<rparr>\<lparr>crc := crc (packet\<lparr>crc := 0\<rparr>)
                  + sum_list (take (nat ?N) (drop 0 (mem (packet\<lparr>crc := 0\<rparr>))))\<rparr>))"
    by (rule XBee_SendPacket_loop_union) (use assms(2) in simp)
  then have l: "XBee_SendPacket_loop h (packet\<lparr>crc := 0\<rparr>) 0 ?N =
          (take (nat ?N) (mem packet),
           Inr (packet\<lparr>crc := sum_list (take (nat ?N) (mem packet))\<rparr>))"
    using N by simp
  have len: "int (length (take (nat ?N) (mem packet))) = ?N"
    using assms by simp
  show ?thesis
    unfolding XBee_SendPacket_def XBee_frame_def len
    by (simp add: Let_def l)
qed

text \<open>A send that returns has written \<^verbatim>\<open>size\<close> characters between header and checksum.\<close>

lemma XBee_SendPacket_returns:
  assumes "XBee_SendPacket h True packet datalength = (sent, Inr (r, packet'))"
  shows "0 \<le> XBee_SendPacket_size h (apiId packet) datalength"
    and "length sent = nat (XBee_SendPacket_size h (apiId packet) datalength) + 4"
proof -
  let ?N = "XBee_SendPacket_size h (apiId packet) datalength"
  obtain s res where l: "XBee_SendPacket_loop h (packet\<lparr>crc := 0\<rparr>) 0 ?N = (s, res)"
    by (cases "XBee_SendPacket_loop h (packet\<lparr>crc := 0\<rparr>) 0 ?N")
  from assms l obtain q where res: "res = Inr q" and sent: "length sent = length s + 4"
    by (cases res) (auto simp: XBee_SendPacket_def Let_def)
  from XBee_SendPacket_loop_Inr[OF l[unfolded res]] sent
  show "0 \<le> ?N" and "length sent = nat ?N + 4" by simp_all
qed


text \<open>
  A send of a \<^verbatim>\<open>size\<close> one more than the kind tag and the union hold writes them and then
  the first byte behind them, which it reads with the checksum field holding the sum of
  the bytes before.
\<close>

lemma XBee_SendPacket_behind_union:
  assumes "XBee_SendPacket_size h (apiId packet) datalength = int (length (mem packet)) + 1"
    and "0 < XBeePacket_tail_size h"
    and "b = XBeePacket_tail_byte h (packet\<lparr>crc := sum_list (mem packet)\<rparr>) 0"
  shows "XBee_SendPacket h True packet datalength =
     ([XBEE_PACKET_STARTBYTE h,
       word_of_int (drop_bit 8 (int (length (mem packet)) + 1) AND 0xFF),
       word_of_int ((int (length (mem packet)) + 1) AND 0xFF)]
        @ mem packet @ [b, 0xFF - (sum_list (mem packet) + b)],
      Inr (0, packet\<lparr>crc := sum_list (mem packet) + b\<rparr>))"
proof -
  have one: "XBee_SendPacket_loop h (packet\<lparr>crc := sum_list (mem packet)\<rparr>)
               (length (mem packet)) 1 =
             ([b], Inr (packet\<lparr>crc := sum_list (mem packet) + b\<rparr>))"
    using assms(2,3)
    by (subst XBee_SendPacket_loop.simps, subst XBee_SendPacket_loop.simps)
       (simp add: Let_def)
  have "XBee_SendPacket_loop h (packet\<lparr>crc := 0\<rparr>) 0 (int (length (mem packet)) + 1) =
          (mem packet @ [b], Inr (packet\<lparr>crc := sum_list (mem packet) + b\<rparr>))"
    using XBee_SendPacket_loop_append[of 0 "length (mem packet)" "packet\<lparr>crc := 0\<rparr>" 1 h]
    by (simp add: one)
  then show ?thesis
    by (simp add: XBee_SendPacket_def Let_def assms(1))
qed

lemma declared_length_frame:
  "length payload < 65536 \<Longrightarrow> declared_length (XBee_frame h payload) = int (length payload)"
  by (simp add: declared_length_def XBee_frame_def length_bytes)

lemma distinct_send_kinds:
  "distinct (send_kinds h) \<longleftrightarrow>
     distinct [XBEE_RX64 h, XBEE_TX64 h, XBEE_RX16 h, XBEE_TX16 h, XBEE_ATCOMMANDRESPONSE h,
               XBEE_TXSTATUS h, XBEE_ATCOMMAND h, XBEE_ATCOMMANDQ h]"
  by (simp add: send_kinds_def)




text \<open>
  A 16-bit receive packet sent with 97 bytes of data has \<^verbatim>\<open>size\<close> 102, one more than
  the kind tag and a 100-byte union hold: the header declares \<^verbatim>\<open>00 66\<close>, the loop writes
  those 101 bytes and then the checksum field as it stands (the sum so far, \<^verbatim>\<open>30\<close>,
  which that read doubles), and the call returns 0.
\<close>

lemma XBee_SendPacket_size_102:
  "XBee_SendPacket xbee_std True (packet_of [0x81, 0x12, 0x34, 40, 0, 0x41]) 97 =
     ([0x7E, 0x00, 0x66] @ mem (packet_of [0x81, 0x12, 0x34, 40, 0, 0x41]) @ [0x30, 0x9F],
      Inr (0, (packet_of [0x81, 0x12, 0x34, 40, 0, 0x41])\<lparr>crc := 0x60\<rparr>))"
proof -
  let ?P = "packet_of [0x81, 0x12, 0x34, 40, 0, 0x41]"
  have l: "length (mem ?P) = 101"
    by code_simp
  have s: "XBee_SendPacket_size xbee_std (apiId ?P) 97 = int (length (mem ?P)) + 1"
    unfolding l by code_simp
  have t: "0 < XBeePacket_tail_size xbee_std"
    by code_simp
  have c: "sum_list (mem ?P) = 0x30"
    by code_simp
  have b: "0x30 = XBeePacket_tail_byte xbee_std (?P\<lparr>crc := sum_list (mem ?P)\<rparr>) 0"
    unfolding c by code_simp
  have e: "XBEE_PACKET_STARTBYTE xbee_std = 0x7E"
    by code_simp
  have w: "(word_of_int (drop_bit 8 (int 101 + 1) AND 0xFF) :: uint8) = 0x00"
    "(word_of_int ((int 101 + 1) AND 0xFF) :: uint8) = 0x66"
    "0xFF - (0x30 + 0x30) = (0x9F :: uint8)" "0x30 + 0x30 = (0x60 :: uint8)"
    by code_simp+
  show ?thesis
    unfolding XBee_SendPacket_behind_union[OF s t b] unfolding c l e w by simp
qed

subsection \<open>The receiver, one character at a time\<close>

lemma XBee_GetPacket_True [simp]:
  "XBee_GetPacket h True packet serial = XBee_GetPacket_loop h packet serial"
  by (simp add: XBee_GetPacket_def)

lemma XBee_GetPacket_loop_next:
  "XBee_GetPacket_char h p c = Inr (None, p') \<Longrightarrow>
   XBee_GetPacket_loop h p (c # cs) = XBee_GetPacket_loop h p' cs"
  by simp

lemma rx_start_char:
  "rxState p = XBEE_PACKET_RX_START \<Longrightarrow>
   XBee_GetPacket_char h p (XBEE_PACKET_STARTBYTE h) =
     Inr (None, p\<lparr>rxState := XBEE_PACKET_RX_LENGTH_1\<rparr>)"
  by (simp add: XBee_GetPacket_char_def)

lemma rx_resync_char:
  "rxState p \<noteq> XBEE_PACKET_RX_START \<Longrightarrow>
   XBee_GetPacket_char h p (XBEE_PACKET_STARTBYTE h) =
     Inr (None, (XBee_ResetPacket p)\<lparr>rxState := XBEE_PACKET_RX_LENGTH_1\<rparr>)"
  by (simp add: XBee_GetPacket_char_def XBee_ResetPacket_def)

lemma rx_length_1_char:
  "rxState p = XBEE_PACKET_RX_LENGTH_1 \<Longrightarrow> c \<noteq> XBEE_PACKET_STARTBYTE h \<Longrightarrow>
   XBee_GetPacket_char h p c =
     Inr (None, p\<lparr>length_pk := push_bit 8 (uint c), rxState := XBEE_PACKET_RX_LENGTH_2\<rparr>)"
  by (simp add: XBee_GetPacket_char_def)

lemma rx_length_2_char:
  "rxState p = XBEE_PACKET_RX_LENGTH_2 \<Longrightarrow> c \<noteq> XBEE_PACKET_STARTBYTE h \<Longrightarrow>
   XBee_GetPacket_char h p c =
     Inr (None, p\<lparr>length_pk := min (length_pk p + uint c) (XBEE_MAX_PACKET_SIZE h),
                  rxState := XBEE_PACKET_RX_PAYLOAD\<rparr>)"
  by (simp add: XBee_GetPacket_char_def Let_def min_def)

lemma rx_payload_char:
  assumes "rxState p = XBEE_PACKET_RX_PAYLOAD" "b \<noteq> XBEE_PACKET_STARTBYTE h"
    "dataPtr p < length (mem p)"
  shows "XBee_GetPacket_char h p b =
     Inr (None, p\<lparr>mem := (mem p)[dataPtr p := b], dataPtr := dataPtr p + 1,
                  index := index p + 1, crc := crc p + b,
                  rxState := (if index p + 1 \<ge> length_pk p then XBEE_PACKET_RX_CRC
                              else XBEE_PACKET_RX_PAYLOAD)\<rparr>)"
  using assms by (simp add: XBee_GetPacket_char_def Let_def)

lemma rx_crc_char:
  "rxState p = XBEE_PACKET_RX_CRC \<Longrightarrow> c \<noteq> XBEE_PACKET_STARTBYTE h \<Longrightarrow>
   XBee_GetPacket_char h p c =
     (if crc p + c = 0xFF
      then Inr (Some 1, p\<lparr>crc := crc p + c, rxState := XBEE_PACKET_RX_START\<rparr>)
      else Inr (Some 0, XBee_ResetPacket p))"
  by (simp add: XBee_GetPacket_char_def Let_def XBee_ResetPacket_def)

subsection \<open>Receiving a frame\<close>

lemma take_Suc_update:
  "d < length xs \<Longrightarrow> take (Suc d) (xs[d := b]) = take d xs @ [b]"
  by (simp add: take_Suc_conv_app_nth)

text \<open>The payload state stores a run of characters that holds no start byte.\<close>

lemma rx_payload:
  assumes "bs \<noteq> []" "rxState p = XBEE_PACKET_RX_PAYLOAD"
    "XBEE_PACKET_STARTBYTE h \<notin> set bs"
    "index p + int (length bs) = length_pk p"
    "dataPtr p + length bs \<le> length (mem p)"
  shows "XBee_GetPacket_loop h p (bs @ cs) =
     XBee_GetPacket_loop h
       (p\<lparr>mem := take (dataPtr p) (mem p) @ bs @ drop (dataPtr p + length bs) (mem p),
          dataPtr := dataPtr p + length bs, index := index p + int (length bs),
          crc := crc p + sum_list bs, rxState := XBEE_PACKET_RX_CRC\<rparr>) cs"
  using assms
proof (induction bs arbitrary: p rule: list_nonempty_induct)
  case (single b)
  then have d: "dataPtr p < length (mem p)" by simp
  have u: "(mem p)[dataPtr p := b] = take (dataPtr p) (mem p) @ b # drop (Suc (dataPtr p)) (mem p)"
    using d by (simp add: upd_conv_take_nth_drop)
  have nb: "b \<noteq> XBEE_PACKET_STARTBYTE h" using single by auto
  show ?case using single d
    by (simp add: rx_payload_char[OF single(1) nb d] u)
next
  case (cons b bs)
  then have d: "dataPtr p < length (mem p)" by simp
  let ?p1 = "p\<lparr>mem := (mem p)[dataPtr p := b], dataPtr := dataPtr p + 1,
                  index := index p + 1, crc := crc p + b\<rparr>"
  have nb: "b \<noteq> XBEE_PACKET_STARTBYTE h" using cons.prems by auto
  have lt: "\<not> length_pk p \<le> index p + 1" using cons.prems cons.hyps by (cases bs) auto
  have step: "XBee_GetPacket_char h p b = Inr (None, ?p1)"
    using cons.prems(1) lt by (simp add: rx_payload_char[OF cons.prems(1) nb d])
  have ih: "XBee_GetPacket_loop h ?p1 (bs @ cs) =
     XBee_GetPacket_loop h
       (?p1\<lparr>mem := take (dataPtr ?p1) (mem ?p1) @ bs @ drop (dataPtr ?p1 + length bs) (mem ?p1),
          dataPtr := dataPtr ?p1 + length bs, index := index ?p1 + int (length bs),
          crc := crc ?p1 + sum_list bs, rxState := XBEE_PACKET_RX_CRC\<rparr>) cs"
    by (rule cons.IH) (use cons.prems in auto)
  have "XBee_GetPacket_loop h p ((b # bs) @ cs) = XBee_GetPacket_loop h ?p1 (bs @ cs)"
    by (simp add: step)
  also note ih
  finally show ?case using d
    by (simp add: take_Suc_update add.assoc)
qed

text \<open>
  A frame whose payload fits and that holds no start byte behind its first character is
  received whole by a packet that waits for a start byte with cursor, counter and
  checksum at zero.
\<close>

lemma rx_frame_clean:
  assumes clean: "rxState p = XBEE_PACKET_RX_START" "index p = 0" "dataPtr p = 0" "crc p = 0"
    and ne: "payload \<noteq> []"
    and le: "int (length payload) \<le> XBEE_MAX_PACKET_SIZE h" "XBEE_MAX_PACKET_SIZE h < 65536"
    and fit: "length payload \<le> length (mem p)"
    and nostart: "XBEE_PACKET_STARTBYTE h \<notin> set (tl (XBee_frame h payload))"
  shows "XBee_GetPacket_loop h p (XBee_frame h payload @ serial) =
           Inr (1, XBee_received p payload, serial)"
proof -
  let ?n = "int (length payload)"
  let ?hi = "word_of_int (drop_bit 8 ?n AND 0xFF) :: uint8"
  let ?lo = "word_of_int (?n AND 0xFF) :: uint8"
  let ?ck = "0xFF - sum_list payload :: uint8"
  have hi: "?hi \<noteq> XBEE_PACKET_STARTBYTE h" and lo: "?lo \<noteq> XBEE_PACKET_STARTBYTE h"
    and pl: "XBEE_PACKET_STARTBYTE h \<notin> set payload" and ck: "?ck \<noteq> XBEE_PACKET_STARTBYTE h"
    using nostart by (auto simp: XBee_frame_def)
  have n: "push_bit 8 (uint ?hi) + uint ?lo = ?n"
    using le by (intro length_bytes) auto
  let ?p1 = "p\<lparr>rxState := XBEE_PACKET_RX_LENGTH_1\<rparr>"
  let ?p2 = "?p1\<lparr>length_pk := push_bit 8 (uint ?hi), rxState := XBEE_PACKET_RX_LENGTH_2\<rparr>"
  let ?p3 = "?p2\<lparr>length_pk := min (length_pk ?p2 + uint ?lo) (XBEE_MAX_PACKET_SIZE h),
                  rxState := XBEE_PACKET_RX_PAYLOAD\<rparr>"
  let ?p4 = "?p3\<lparr>mem := take (dataPtr ?p3) (mem ?p3) @ payload
                          @ drop (dataPtr ?p3 + length payload) (mem ?p3),
          dataPtr := dataPtr ?p3 + length payload, index := index ?p3 + int (length payload),
          crc := crc ?p3 + sum_list payload, rxState := XBEE_PACKET_RX_CRC\<rparr>"
  have l3: "length_pk ?p3 = ?n" using n le by simp
  have "XBee_GetPacket_loop h p (XBee_frame h payload @ serial)
          = XBee_GetPacket_loop h ?p1 (?hi # ?lo # payload @ ?ck # serial)"
    by (simp add: XBee_frame_def rx_start_char[OF clean(1)])
  also have "\<dots> = XBee_GetPacket_loop h ?p2 (?lo # payload @ ?ck # serial)"
    by (rule XBee_GetPacket_loop_next, rule rx_length_1_char[OF _ hi]) simp
  also have "\<dots> = XBee_GetPacket_loop h ?p3 (payload @ ?ck # serial)"
    by (rule XBee_GetPacket_loop_next, rule rx_length_2_char[OF _ lo]) simp
  also have "\<dots> = XBee_GetPacket_loop h ?p4 (?ck # serial)"
    by (rule rx_payload[OF ne _ pl]) (use clean fit l3 in simp_all)
  also have "\<dots> = Inr (1, XBee_received p payload, serial)"
    using clean n le by (simp add: rx_crc_char[OF _ ck] XBee_received_def)
  finally show ?thesis .
qed

lemma XBee_received_Reset:
  "payload \<noteq> [] \<Longrightarrow>
   XBee_received (XBee_ResetPacket p) payload = XBee_received p payload"
  by (cases payload) (simp_all add: XBee_received_def XBee_ResetPacket_def drop_Cons')

lemma rx_frame_reset:
  assumes "payload \<noteq> []"
    and "int (length payload) \<le> XBEE_MAX_PACKET_SIZE h" "XBEE_MAX_PACKET_SIZE h < 65536"
    and "length payload \<le> length (mem p)"
    and "XBEE_PACKET_STARTBYTE h \<notin> set (tl (XBee_frame h payload))"
  shows "XBee_GetPacket_loop h (XBee_ResetPacket p) (XBee_frame h payload @ serial) =
           Inr (1, XBee_received p payload, serial)"
proof -
  have "XBee_GetPacket_loop h (XBee_ResetPacket p) (XBee_frame h payload @ serial) =
           Inr (1, XBee_received (XBee_ResetPacket p) payload, serial)"
    by (rule rx_frame_clean) (use assms in \<open>simp_all add: XBee_ResetPacket_def\<close>)
  then show ?thesis using assms(1) by (simp add: XBee_received_Reset)
qed

text \<open>In any other state the start byte of the frame resets the packet first.\<close>

lemma rx_frame_resync:
  assumes "rxState p \<noteq> XBEE_PACKET_RX_START" and "payload \<noteq> []"
    and "int (length payload) \<le> XBEE_MAX_PACKET_SIZE h" "XBEE_MAX_PACKET_SIZE h < 65536"
    and "length payload \<le> length (mem p)"
    and "XBEE_PACKET_STARTBYTE h \<notin> set (tl (XBee_frame h payload))"
  shows "XBee_GetPacket_loop h p (XBee_frame h payload @ serial) =
           Inr (1, XBee_received p payload, serial)"
proof -
  have r: "XBee_GetPacket_char h (XBee_ResetPacket p) (XBEE_PACKET_STARTBYTE h) =
             XBee_GetPacket_char h p (XBEE_PACKET_STARTBYTE h)"
    using assms(1)
    by (simp add: rx_resync_char rx_start_char XBee_ResetPacket_def)
  have "XBee_GetPacket_loop h p (XBee_frame h payload @ serial) =
          XBee_GetPacket_loop h (XBee_ResetPacket p) (XBee_frame h payload @ serial)"
    by (simp add: XBee_frame_def r)
  then show ?thesis using rx_frame_reset[OF assms(2-)] by simp
qed

lemma XBee_received_nth:
  "k < length payload \<Longrightarrow> mem (XBee_received p payload) ! k = payload ! k"
  by (simp add: XBee_received_def nth_append)

lemma XBee_received_data:
  "off + d \<le> length payload \<Longrightarrow>
   take d (drop off (mem (XBee_received p payload))) = take d (drop off payload)"
  by (simp add: XBee_received_def)

subsection \<open>Round trip\<close>

lemma XBee_SendPacket_roundtrip:
  assumes sent: "XBee_SendPacket h True packet datalength = (sent, Inr (r, packet'))"
    and n: "n = length sent - 4" "1 \<le> n" "int n \<le> XBEE_MAX_PACKET_SIZE h"
    and cap: "XBEE_MAX_PACKET_SIZE h < 65536"
    and fit: "n \<le> length (mem rx)"
    and nostart: "XBEE_PACKET_STARTBYTE h \<notin> set (tl sent)"
    and le: "n \<le> length (mem packet)"
  shows "n = nat (XBee_SendPacket_size h (apiId packet) datalength)"
    and "XBee_GetPacket_loop h (XBee_ResetPacket rx) sent =
           Inr (1, XBee_received rx (take n (mem packet)), [])"
proof -
  let ?N = "XBee_SendPacket_size h (apiId packet) datalength"
  note f = XBee_SendPacket_returns[OF sent]
  show nN: "n = nat ?N" using n(1) f(2) by simp
  have "XBee_SendPacket h True packet datalength =
          (XBee_frame h (take (nat ?N) (mem packet)),
           Inr (0, packet\<lparr>crc := sum_list (take (nat ?N) (mem packet))\<rparr>))"
    by (rule XBee_SendPacket_frame) (use f(1) le nN in simp_all)
  then have fr: "sent = XBee_frame h (take n (mem packet)) @ []"
    unfolding sent using nN by simp
  have len: "length (take n (mem packet)) = n" using le by simp
  show "XBee_GetPacket_loop h (XBee_ResetPacket rx) sent =
           Inr (1, XBee_received rx (take n (mem packet)), [])"
    unfolding fr
  proof (rule rx_frame_reset)
    show "take n (mem packet) \<noteq> []" using len n(2) by auto
    show "int (length (take n (mem packet))) \<le> XBEE_MAX_PACKET_SIZE h"
      unfolding len by (rule n(3))
    show "XBEE_MAX_PACKET_SIZE h < 65536" by (rule cap)
    show "length (take n (mem packet)) \<le> length (mem rx)"
      unfolding len by (rule fit)
    show "XBEE_PACKET_STARTBYTE h \<notin> set (tl (XBee_frame h (take n (mem packet))))"
      using nostart fr by simp
  qed
qed

text \<open>
  C1, as the code has it. The receiver treats every start-byte value behind the first
  character of a frame as the start of a new frame, so the round trip holds for the frames
  that hold none. For such a frame with a payload of 1 to \<^verbatim>\<open>XBEE_MAX_PACKET_SIZE\<close> bytes
  that lies inside the union of the sending packet and fits the receiving packet,
  \<^verbatim>\<open>XBee_GetPacket\<close> on a reset packet returns 1 with
  nothing left unread; the packet then starts with the bytes that were sent (kind tag,
  addresses, options, data) and its length is their number; and each reader of the kind
  gives back the fields of the original: the 16-bit source address, signal strength,
  options and data of a 16-bit receive packet, signal strength, options and data of a
  64-bit receive packet, frame id, status and value of an AT command response, frame id
  and status of a transmit status.
\<close>

theorem XBee_roundtrip:
  assumes "XBee_SendPacket h True packet datalength = (sent, Inr (r, packet'))"
    and "distinct (send_kinds h)"
    and "XBEE_MAX_PACKET_SIZE h < 65536"
    and "n = length sent - 4" and "1 \<le> n" and "int n \<le> XBEE_MAX_PACKET_SIZE h"
    and "n \<le> length (mem rx)"
    and "XBEE_PACKET_STARTBYTE h \<notin> set (tl sent)"
    and "got = XBee_received rx (take n (mem packet))"
    and "n \<le> length (mem packet)"
  shows "XBee_GetPacket h True (XBee_ResetPacket rx) sent = Inr (1, got, []) \<and>
    take n (mem got) = take n (mem packet) \<and> length_pk got = int n \<and>
    apiId got = apiId packet \<and>
    (apiId packet = XBEE_RX16 h \<and> 0 \<le> datalength \<longrightarrow>
       XBee_ReadRX16Packet h got (Some a) (Some s) (Some op) (Some d) (Some l) =
         (True,
          Some (push_bit 8 (ucast (mem packet ! rx16_source))
                  + ucast (mem packet ! (rx16_source + 1))),
          Some (mem packet ! rx16_rssi), Some (mem packet ! rx16_options),
          Some rx16_data, Some (word_of_int datalength)) \<and>
       take (nat datalength) (drop rx16_data (mem got)) =
         take (nat datalength) (drop rx16_data (mem packet))) \<and>
    (apiId packet = XBEE_RX64 h \<and> 0 \<le> datalength \<longrightarrow>
       XBee_ReadRX64Packet h got None (Some s) (Some op) (Some d) (Some l) =
         (True, None, Some (mem packet ! rx64_rssi), Some (mem packet ! rx64_options),
          Some rx64_data, Some (word_of_int datalength)) \<and>
       take (nat datalength) (drop rx64_data (mem got)) =
         take (nat datalength) (drop rx64_data (mem packet))) \<and>
    (apiId packet = XBEE_ATCOMMANDRESPONSE h \<and> 0 \<le> datalength \<longrightarrow>
       XBee_ReadAtResponsePacket h got (Some f) cmd (Some s) (Some d) =
         (True, Some (mem packet ! atResponse_frameID), cmd,
          Some (mem packet ! atResponse_status), Some atResponse_value) \<and>
       take (nat datalength) (drop atResponse_value (mem got)) =
         take (nat datalength) (drop atResponse_value (mem packet))) \<and>
    (apiId packet = XBEE_TXSTATUS h \<longrightarrow>
       XBee_ReadTXStatusPacket h got (Some f) (Some s) =
         (True, Some (mem packet ! txStatus_frameID), Some (mem packet ! txStatus_status)))"
proof -
  let ?N = "XBee_SendPacket_size h (apiId packet) datalength"
  let ?payload = "take n (mem packet)"
  note rt = XBee_SendPacket_roundtrip[OF assms(1) assms(4-6) assms(3) assms(7,8) assms(10)]
  have len: "length ?payload = n" using assms(10) by simp
  have k: "distinct [XBEE_RX64 h, XBEE_TX64 h, XBEE_RX16 h, XBEE_TX16 h,
      XBEE_ATCOMMANDRESPONSE h, XBEE_TXSTATUS h, XBEE_ATCOMMAND h, XBEE_ATCOMMANDQ h]"
    using assms(2) by (simp only: distinct_send_kinds)
  have nth: "mem got ! i = mem packet ! i" if "i < n" for i
    unfolding assms(9) using that len by (simp add: XBee_received_nth)
  have dat: "take c (drop off (mem got)) = take c (drop off (mem packet))"
    if "off + c \<le> n" for off c
  proof -
    have "take c (drop off (mem got)) = take c (drop off ?payload)"
      unfolding assms(9) by (rule XBee_received_data) (use that len in simp)
    also have "\<dots> = take c (drop off (mem packet))"
      using that by (simp add: drop_take)
    finally show ?thesis .
  qed
  have lg: "length_pk got = int n"
    unfolding assms(9) using len by (simp add: XBee_received_def)
  have tag: "apiId got = apiId packet"
    unfolding apiId_def using assms(5) by (simp add: nth)
  have c1: "XBee_GetPacket h True (XBee_ResetPacket rx) sent = Inr (1, got, [])"
    unfolding assms(9) using rt(2) by simp
  have c2: "take n (mem got) = take n (mem packet)"
    using dat[of 0 n] by simp
  have rx16: "apiId packet = XBEE_RX16 h \<and> 0 \<le> datalength \<longrightarrow>
       XBee_ReadRX16Packet h got (Some a) (Some s) (Some op) (Some d) (Some l) =
         (True,
          Some (push_bit 8 (ucast (mem packet ! rx16_source))
                  + ucast (mem packet ! (rx16_source + 1))),
          Some (mem packet ! rx16_rssi), Some (mem packet ! rx16_options),
          Some rx16_data, Some (word_of_int datalength)) \<and>
       take (nat datalength) (drop rx16_data (mem got)) =
         take (nat datalength) (drop rx16_data (mem packet))"
  proof (intro impI, elim conjE)
    assume kind: "apiId packet = XBEE_RX16 h" and d0: "0 \<le> datalength"
    have "?N = datalength + 5" using k kind by (auto simp: XBee_SendPacket_size_def)
    then have n5: "n = nat datalength + 5" using rt(1) d0 by simp
    show "XBee_ReadRX16Packet h got (Some a) (Some s) (Some op) (Some d) (Some l) =
         (True,
          Some (push_bit 8 (ucast (mem packet ! rx16_source))
                  + ucast (mem packet ! (rx16_source + 1))),
          Some (mem packet ! rx16_rssi), Some (mem packet ! rx16_options),
          Some rx16_data, Some (word_of_int datalength)) \<and>
       take (nat datalength) (drop rx16_data (mem got)) =
         take (nat datalength) (drop rx16_data (mem packet))"
      using kind d0 n5
      by (simp add: XBee_ReadRX16Packet_def tag lg out_def nth dat layout_defs)
  qed
  have rx64: "apiId packet = XBEE_RX64 h \<and> 0 \<le> datalength \<longrightarrow>
       XBee_ReadRX64Packet h got None (Some s) (Some op) (Some d) (Some l) =
         (True, None, Some (mem packet ! rx64_rssi), Some (mem packet ! rx64_options),
          Some rx64_data, Some (word_of_int datalength)) \<and>
       take (nat datalength) (drop rx64_data (mem got)) =
         take (nat datalength) (drop rx64_data (mem packet))"
  proof (intro impI, elim conjE)
    assume kind: "apiId packet = XBEE_RX64 h" and d0: "0 \<le> datalength"
    have "?N = datalength + 11" using kind by (auto simp: XBee_SendPacket_size_def)
    then have n5: "n = nat datalength + 11" using rt(1) d0 by simp
    show "XBee_ReadRX64Packet h got None (Some s) (Some op) (Some d) (Some l) =
         (True, None, Some (mem packet ! rx64_rssi), Some (mem packet ! rx64_options),
          Some rx64_data, Some (word_of_int datalength)) \<and>
       take (nat datalength) (drop rx64_data (mem got)) =
         take (nat datalength) (drop rx64_data (mem packet))"
      using kind d0 n5
      by (simp add: XBee_ReadRX64Packet_def tag lg out_def nth dat layout_defs)
  qed
  have atr: "apiId packet = XBEE_ATCOMMANDRESPONSE h \<and> 0 \<le> datalength \<longrightarrow>
       XBee_ReadAtResponsePacket h got (Some f) cmd (Some s) (Some d) =
         (True, Some (mem packet ! atResponse_frameID), cmd,
          Some (mem packet ! atResponse_status), Some atResponse_value) \<and>
       take (nat datalength) (drop atResponse_value (mem got)) =
         take (nat datalength) (drop atResponse_value (mem packet))"
  proof (intro impI, elim conjE)
    assume kind: "apiId packet = XBEE_ATCOMMANDRESPONSE h" and d0: "0 \<le> datalength"
    have "?N = datalength + 5" using k kind by (auto simp: XBee_SendPacket_size_def)
    then have n5: "n = nat datalength + 5" using rt(1) d0 by simp
    show "XBee_ReadAtResponsePacket h got (Some f) cmd (Some s) (Some d) =
         (True, Some (mem packet ! atResponse_frameID), cmd,
          Some (mem packet ! atResponse_status), Some atResponse_value) \<and>
       take (nat datalength) (drop atResponse_value (mem got)) =
         take (nat datalength) (drop atResponse_value (mem packet))"
      using kind d0 n5
      by (simp add: XBee_ReadAtResponsePacket_def tag out_def nth dat layout_defs)
  qed
  have txs: "apiId packet = XBEE_TXSTATUS h \<longrightarrow>
       XBee_ReadTXStatusPacket h got (Some f) (Some s) =
         (True, Some (mem packet ! txStatus_frameID), Some (mem packet ! txStatus_status))"
  proof
    assume kind: "apiId packet = XBEE_TXSTATUS h"
    have "?N = 3" using k kind by (auto simp: XBee_SendPacket_size_def)
    then have n3: "n = 3" using rt(1) by simp
    show "XBee_ReadTXStatusPacket h got (Some f) (Some s) =
         (True, Some (mem packet ! txStatus_frameID), Some (mem packet ! txStatus_status))"
      using kind n3
      by (simp add: XBee_ReadTXStatusPacket_def tag out_def nth layout_defs)
  qed
  from c1 c2 lg tag rx16 rx64 atr txs show ?thesis by blast
qed

theorem XBee_roundtrip_witness:
  "XBee_SendPacket xbee_std True (packet_of [0x81, 0x12, 0x34, 40, 0, 0x41, 0x42, 0x43]) 3
     = ([0x7E, 0, 8, 0x81, 0x12, 0x34, 40, 0, 0x41, 0x42, 0x43, 0x4A],
        Inr (0, (packet_of [0x81, 0x12, 0x34, 40, 0, 0x41, 0x42, 0x43])\<lparr>crc := 0xB5\<rparr>))
   \<and> XBee_GetPacket xbee_std True (XBee_ResetPacket (packet_of [9, 9, 9, 9, 9, 9, 9, 9, 9, 9]))
         [0x7E, 0, 8, 0x81, 0x12, 0x34, 40, 0, 0x41, 0x42, 0x43, 0x4A]
     = Inr (1, (packet_of [0x81, 0x12, 0x34, 40, 0, 0x41, 0x42, 0x43, 9, 9])
                 \<lparr>crc := 0xFF, dataPtr := 8, length_pk := 8, index := 8\<rparr>, [])
   \<and> XBee_ReadRX16Packet xbee_std
         ((packet_of [0x81, 0x12, 0x34, 40, 0, 0x41, 0x42, 0x43, 9, 9])
            \<lparr>crc := 0xFF, dataPtr := 8, length_pk := 8, index := 8\<rparr>)
         (Some 0) (Some 0) (Some 0) (Some 0) (Some 0)
     = (True, Some 0x1234, Some 40, Some 0, Some 5, Some 3)"
proof -
  let ?h = "xbee_std"
  let ?p = "packet_of [0x81, 0x12, 0x34, 40, 0, 0x41, 0x42, 0x43]"
  let ?rx = "packet_of [9, 9, 9, 9, 9, 9, 9, 9, 9, 9]"
  let ?sent = "[0x7E, 0, 8, 0x81, 0x12, 0x34, 40, 0, 0x41, 0x42, 0x43, 0x4A] :: uint8 list"
  let ?got = "(packet_of [0x81, 0x12, 0x34, 40, 0, 0x41, 0x42, 0x43, 9, 9])
                 \<lparr>crc := 0xFF, dataPtr := 8, length_pk := 8, index := 8\<rparr>"
  have s: "XBee_SendPacket ?h True ?p 3 = (?sent, Inr (0, ?p\<lparr>crc := 0xB5\<rparr>))"
    by code_simp
  have k: "distinct (send_kinds ?h)"
    by (simp add: send_kinds_def xbee_std_def)
  have cap: "XBEE_MAX_PACKET_SIZE ?h < 65536" by (simp add: xbee_std_def)
  have n: "(8::nat) = length ?sent - 4" by simp
  have n1: "1 \<le> (8::nat)" by simp
  have nmax: "int 8 \<le> XBEE_MAX_PACKET_SIZE ?h" by (simp add: xbee_std_def)
  have fit: "8 \<le> length (mem ?rx)" by (simp add: packet_of_def)
  have nostart: "XBEE_PACKET_STARTBYTE ?h \<notin> set (tl ?sent)" by (simp add: xbee_std_def)
  have got: "?got = XBee_received ?rx (take 8 (mem ?p))" by code_simp
  have inside: "8 \<le> length (mem ?p)" by (simp add: packet_of_def)
  have kind: "apiId ?p = XBEE_RX16 ?h" by code_simp
  have vals: "push_bit 8 (ucast (mem ?p ! rx16_source)) + ucast (mem ?p ! (rx16_source + 1))
                = (0x1234 :: uint16)"
    "mem ?p ! rx16_rssi = 40" "mem ?p ! rx16_options = 0" "rx16_data = 5"
    by code_simp+
  note t = XBee_roundtrip[OF s k cap n n1 nmax fit nostart got inside, of 0 0 0 0 0]
  from t have g: "XBee_GetPacket ?h True (XBee_ResetPacket ?rx) ?sent = Inr (1, ?got, [])"
    by blast
  from t kind have "XBee_ReadRX16Packet ?h ?got (Some 0) (Some 0) (Some 0) (Some 0) (Some 0) =
         (True,
          Some (push_bit 8 (ucast (mem ?p ! rx16_source)) + ucast (mem ?p ! (rx16_source + 1))),
          Some (mem ?p ! rx16_rssi), Some (mem ?p ! rx16_options),
          Some rx16_data, Some (word_of_int 3))"
    by simp
  then have r: "XBee_ReadRX16Packet ?h ?got (Some 0) (Some 0) (Some 0) (Some 0) (Some 0) =
         (True, Some 0x1234, Some 40, Some 0, Some 5, Some 3)"
    unfolding vals by simp
  from s g r show ?thesis by blast
qed

text \<open>
  A 16-bit transmit packet whose one data byte is \<^verbatim>\<open>0x7E\<close>: the frame that is sent ends the
  reception in \<^verbatim>\<open>XBEE_PACKET_RX_LENGTH_2\<close> with the result 0 and a reset packet.
\<close>

theorem XBee_roundtrip_counterexample:
  "XBee_SendPacket xbee_std True (packet_of [0x01, 0, 0xFF, 0xFF, 0, 0x7E]) 1
     = ([0x7E, 0, 6, 0x01, 0, 0xFF, 0xFF, 0, 0x7E, 0x82],
        Inr (0, (packet_of [0x01, 0, 0xFF, 0xFF, 0, 0x7E])\<lparr>crc := 0x7D\<rparr>))
   \<and> XBee_GetPacket xbee_std True (XBee_ResetPacket (packet_of []))
         [0x7E, 0, 6, 0x01, 0, 0xFF, 0xFF, 0, 0x7E, 0x82]
     = Inr (0, (packet_of [0, 0, 0xFF, 0xFF, 0])
                 \<lparr>rxState := XBEE_PACKET_RX_LENGTH_2, length_pk := 0x8200\<rparr>, [])"
  by code_simp

text \<open>
  The constructors in front of the sender. A 16-bit transmit packet built from a frame id,
  the broadcast address and the data \<^verbatim>\<open>ABC\<close> is sent and received with the same eight bytes.
  The 64-bit constructor stores \<^verbatim>\<open>(destination >> 8*i) & (0xFF * i)\<close>, low byte first: of
  the address \<^verbatim>\<open>0x0013A200400A0127\<close> the byte \<^verbatim>\<open>27\<close> is stored as \<^verbatim>\<open>00\<close> and the byte
  \<^verbatim>\<open>13\<close> as \<^verbatim>\<open>12\<close>.
\<close>

lemma XBee_CreateTX16Packet_roundtrip:
  "XBee_CreateTX16Packet xbee_std (packet_of []) 1 0xFFFF 0 [0x41, 0x42, 0x43] 3
     = Inr (True, (packet_of [0x01, 1, 0xFF, 0xFF, 0, 0x41, 0x42, 0x43])\<lparr>length_pk := 8\<rparr>)"
  "XBee_SendPacket xbee_std True
       ((packet_of [0x01, 1, 0xFF, 0xFF, 0, 0x41, 0x42, 0x43])\<lparr>length_pk := 8\<rparr>) 3
     = ([0x7E, 0, 8, 0x01, 1, 0xFF, 0xFF, 0, 0x41, 0x42, 0x43, 0x39],
        Inr (0, (packet_of [0x01, 1, 0xFF, 0xFF, 0, 0x41, 0x42, 0x43])
                  \<lparr>length_pk := 8, crc := 0xC6\<rparr>))"
  "XBee_GetPacket xbee_std True (XBee_ResetPacket (packet_of []))
       [0x7E, 0, 8, 0x01, 1, 0xFF, 0xFF, 0, 0x41, 0x42, 0x43, 0x39]
     = Inr (1, (packet_of [0x01, 1, 0xFF, 0xFF, 0, 0x41, 0x42, 0x43])
                 \<lparr>crc := 0xFF, dataPtr := 8, length_pk := 8, index := 8\<rparr>, [])"
  by code_simp+

lemma XBee_CreateTX64Packet_destination:
  "XBee_CreateTX64Packet xbee_std (packet_of []) 1 0x0013A200400A0127 0 [0x41] 1
     = Inr (True, (packet_of [0x00, 1, 0x00, 0x01, 0x0A, 0x40, 0x00, 0xA2, 0x12, 0x00, 0, 0x41])
                    \<lparr>length_pk := 6\<rparr>)"
  by code_simp

subsection \<open>Recovery from framing corruption\<close>

text \<open>
  C4, as the code has it. A character in the checksum position that is not the start byte
  and does not bring the sum to \<^verbatim>\<open>0xFF\<close> makes \<^verbatim>\<open>XBee_GetPacket\<close> reset the packet and return
  0, waiting for a start byte. A start byte in any state but \<^verbatim>\<open>XBEE_PACKET_RX_START\<close>, the
  checksum position included, resets the packet and goes on in \<^verbatim>\<open>XBEE_PACKET_RX_LENGTH_1\<close>.
  After either, a frame that holds no start byte behind its first character and whose
  payload of 1 to \<^verbatim>\<open>XBEE_MAX_PACKET_SIZE\<close> bytes fits the packet is received with the
  result 1. No step gives an error.
\<close>

theorem XBee_GetPacket_recovers:
  assumes "payload \<noteq> []"
    and "int (length payload) \<le> XBEE_MAX_PACKET_SIZE h" and "XBEE_MAX_PACKET_SIZE h < 65536"
    and "length payload \<le> length (mem packet)"
    and "XBEE_PACKET_STARTBYTE h \<notin> set (tl (XBee_frame h payload))"
  shows
    "(rxState packet = XBEE_PACKET_RX_CRC \<and> c \<noteq> XBEE_PACKET_STARTBYTE h \<and>
        crc packet + c \<noteq> 0xFF \<longrightarrow>
        XBee_GetPacket h True packet (c # serial) = Inr (0, XBee_ResetPacket packet, serial)) \<and>
     (rxState packet \<noteq> XBEE_PACKET_RX_START \<longrightarrow>
        XBee_GetPacket_char h packet (XBEE_PACKET_STARTBYTE h) =
          Inr (None, (XBee_ResetPacket packet)\<lparr>rxState := XBEE_PACKET_RX_LENGTH_1\<rparr>)) \<and>
     XBee_GetPacket h True (XBee_ResetPacket packet) (XBee_frame h payload @ serial) =
       Inr (1, XBee_received packet payload, serial) \<and>
     (rxState packet \<noteq> XBEE_PACKET_RX_START \<longrightarrow>
        XBee_GetPacket h True packet (XBee_frame h payload @ serial) =
          Inr (1, XBee_received packet payload, serial))"
proof -
  have a: "rxState packet = XBEE_PACKET_RX_CRC \<and> c \<noteq> XBEE_PACKET_STARTBYTE h \<and>
        crc packet + c \<noteq> 0xFF \<longrightarrow>
        XBee_GetPacket h True packet (c # serial) = Inr (0, XBee_ResetPacket packet, serial)"
    by (simp add: rx_crc_char)
  have b: "rxState packet \<noteq> XBEE_PACKET_RX_START \<longrightarrow>
        XBee_GetPacket_char h packet (XBEE_PACKET_STARTBYTE h) =
          Inr (None, (XBee_ResetPacket packet)\<lparr>rxState := XBEE_PACKET_RX_LENGTH_1\<rparr>)"
    by (simp add: rx_resync_char)
  have c: "XBee_GetPacket h True (XBee_ResetPacket packet) (XBee_frame h payload @ serial) =
       Inr (1, XBee_received packet payload, serial)"
    using rx_frame_reset[OF assms] by simp
  have d: "rxState packet \<noteq> XBEE_PACKET_RX_START \<longrightarrow>
        XBee_GetPacket h True packet (XBee_frame h payload @ serial) =
          Inr (1, XBee_received packet payload, serial)"
    using rx_frame_resync[OF _ assms] by simp
  from a b c d show ?thesis by blast
qed

theorem XBee_GetPacket_recovers_witness:
  "XBee_GetPacket xbee_std True
     ((packet_of [0x89, 1, 0])\<lparr>rxState := XBEE_PACKET_RX_CRC, crc := 0x8A, dataPtr := 3,
                                index := 3, length_pk := 3\<rparr>)
     [0x00, 0x7E, 0, 3, 0x89, 2, 0, 0x74]
     = Inr (0, packet_of [0, 1, 0], [0x7E, 0, 3, 0x89, 2, 0, 0x74])
   \<and> XBee_frame xbee_std [0x89, 2, 0] = [0x7E, 0, 3, 0x89, 2, 0, 0x74]
   \<and> XBee_GetPacket xbee_std True (packet_of [0, 1, 0]) [0x7E, 0, 3, 0x89, 2, 0, 0x74]
     = Inr (1, (packet_of [0x89, 2, 0])\<lparr>crc := 0xFF, dataPtr := 3, index := 3,
                                          length_pk := 3\<rparr>, [])"
proof -
  let ?h = "xbee_std"
  let ?p = "(packet_of [0x89, 1, 0])\<lparr>rxState := XBEE_PACKET_RX_CRC, crc := 0x8A,
                                       dataPtr := 3, index := 3, length_pk := 3\<rparr>"
  let ?payload = "[0x89, 2, 0] :: uint8 list"
  let ?f = "[0x7E, 0, 3, 0x89, 2, 0, 0x74] :: uint8 list"
  have f: "XBee_frame ?h ?payload = ?f" by code_simp
  have a1: "?payload \<noteq> []" by simp
  have a2: "int (length ?payload) \<le> XBEE_MAX_PACKET_SIZE ?h" by (simp add: xbee_std_def)
  have a3: "XBEE_MAX_PACKET_SIZE ?h < 65536" by (simp add: xbee_std_def)
  have a4: "length ?payload \<le> length (mem ?p)" by (simp add: packet_of_def)
  have a5: "XBEE_PACKET_STARTBYTE ?h \<notin> set (tl (XBee_frame ?h ?payload))"
    unfolding f by (simp add: xbee_std_def)
  have st: "rxState ?p = XBEE_PACKET_RX_CRC \<and> 0x00 \<noteq> XBEE_PACKET_STARTBYTE ?h \<and>
              crc ?p + 0x00 \<noteq> 0xFF"
    by (simp add: xbee_std_def)
  have r: "XBee_ResetPacket ?p = packet_of [0, 1, 0]" by code_simp
  have g: "XBee_received ?p ?payload =
             (packet_of [0x89, 2, 0])\<lparr>crc := 0xFF, dataPtr := 3, index := 3, length_pk := 3\<rparr>"
    by code_simp
  note t = XBee_GetPacket_recovers[OF a1 a2 a3 a4 a5, of "0x00"]
  from t[of ?f] st have "XBee_GetPacket ?h True ?p (0x00 # ?f) = Inr (0, XBee_ResetPacket ?p, ?f)"
    by blast
  then have c1: "XBee_GetPacket ?h True ?p (0x00 # ?f) = Inr (0, packet_of [0, 1, 0], ?f)"
    unfolding r .
  from t[of "[]"] have "XBee_GetPacket ?h True (XBee_ResetPacket ?p) (XBee_frame ?h ?payload @ [])
           = Inr (1, XBee_received ?p ?payload, [])"
    by blast
  then have c2: "XBee_GetPacket ?h True (packet_of [0, 1, 0]) ?f =
      Inr (1, (packet_of [0x89, 2, 0])\<lparr>crc := 0xFF, dataPtr := 3, index := 3, length_pk := 3\<rparr>, [])"
    unfolding r g f by simp
  from c1 f c2 show ?thesis by simp
qed

text \<open>
  Where the claim as stated fails. A start byte in the checksum position that leaves the
  sum off \<^verbatim>\<open>0xFF\<close> does not end in \<^verbatim>\<open>XBEE_PACKET_RX_START\<close> but in \<^verbatim>\<open>XBEE_PACKET_RX_LENGTH_1\<close>;
  and a valid frame that follows a reset is not decoded when its payload holds the start
  byte: the receiver takes it for a new frame and is left waiting for payload.
\<close>

theorem XBee_GetPacket_recovers_counterexample:
  "crc ((packet_of [0x89, 1, 0])\<lparr>rxState := XBEE_PACKET_RX_CRC, crc := 0x8A, dataPtr := 3,
                                  index := 3, length_pk := 3\<rparr>) + 0x7E \<noteq> 0xFF
   \<and> XBee_GetPacket xbee_std True
        ((packet_of [0x89, 1, 0])\<lparr>rxState := XBEE_PACKET_RX_CRC, crc := 0x8A, dataPtr := 3,
                                   index := 3, length_pk := 3\<rparr>) [0x7E]
      = Inr (0, (packet_of [0, 1, 0])\<lparr>rxState := XBEE_PACKET_RX_LENGTH_1\<rparr>, [])
   \<and> XBee_frame xbee_std [0x81, 0, 0x7E, 40, 0, 0x41]
      = [0x7E, 0, 6, 0x81, 0, 0x7E, 40, 0, 0x41, 0x97]
   \<and> XBee_GetPacket xbee_std True (XBee_ResetPacket (packet_of []))
        [0x7E, 0, 6, 0x81, 0, 0x7E, 40, 0, 0x41, 0x97]
      = Inr (0, (packet_of [0x41, 0x97])\<lparr>crc := 0xD8, dataPtr := 2,
                   rxState := XBEE_PACKET_RX_PAYLOAD, length_pk := 100, index := 2\<rparr>, [])"
  by code_simp

subsection \<open>The clamped length and the bound on what is stored\<close>

lemma rx_inv_Reset: "rx_inv h (XBee_ResetPacket p)"
  by (simp add: rx_inv_def XBee_ResetPacket_def)

lemma rx_inv_char:
  assumes inv: "rx_inv h p" and m1: "1 \<le> XBEE_MAX_PACKET_SIZE h"
    and fit: "XBEE_MAX_PACKET_SIZE h \<le> int (length (mem p))"
  shows "\<exists>res p'. XBee_GetPacket_char h p c = Inr (res, p') \<and>
           length (mem p') = length (mem p) \<and>
           drop (nat (XBEE_MAX_PACKET_SIZE h)) (mem p') =
             drop (nat (XBEE_MAX_PACKET_SIZE h)) (mem p) \<and>
           int (dataPtr p') \<le> XBEE_MAX_PACKET_SIZE h \<and>
           (res \<noteq> Some 1 \<longrightarrow> rx_inv h p')"
proof (cases "c = XBEE_PACKET_STARTBYTE h \<and> rxState p \<noteq> XBEE_PACKET_RX_START")
  case True
  then show ?thesis using m1
    by (simp add: rx_resync_char XBee_ResetPacket_def rx_inv_def)
next
  case False
  show ?thesis
  proof (cases "rxState p")
    case XBEE_PACKET_RX_START
    then show ?thesis using inv m1
      by (simp add: XBee_GetPacket_char_def rx_inv_def)
  next
    case XBEE_PACKET_RX_LENGTH_1
    then show ?thesis using inv m1 False
      by (simp add: rx_length_1_char rx_inv_def)
  next
    case XBEE_PACKET_RX_LENGTH_2
    then show ?thesis using inv m1 False
      by (simp add: rx_length_2_char rx_inv_def)
  next
    case XBEE_PACKET_RX_PAYLOAD
    then have c: "c \<noteq> XBEE_PACKET_STARTBYTE h" using False by simp
    have d: "int (dataPtr p) < XBEE_MAX_PACKET_SIZE h"
      using inv m1 XBEE_PACKET_RX_PAYLOAD by (auto simp: rx_inv_def)
    then have d': "dataPtr p < length (mem p)" "dataPtr p < nat (XBEE_MAX_PACKET_SIZE h)"
      using fit by auto
    show ?thesis using inv m1 d d'
      by (auto simp add: rx_payload_char[OF XBEE_PACKET_RX_PAYLOAD c d'(1)] rx_inv_def
          XBEE_PACKET_RX_PAYLOAD)
  next
    case XBEE_PACKET_RX_CRC
    then have c: "c \<noteq> XBEE_PACKET_STARTBYTE h" using False by simp
    show ?thesis using inv m1
      by (auto simp add: rx_crc_char[OF XBEE_PACKET_RX_CRC c] rx_inv_def XBEE_PACKET_RX_CRC
          XBee_ResetPacket_def)
  qed
qed

lemma rx_inv_loop:
  assumes "rx_inv h p" "1 \<le> XBEE_MAX_PACKET_SIZE h"
    "XBEE_MAX_PACKET_SIZE h \<le> int (length (mem p))"
  shows "\<exists>r p' rest. XBee_GetPacket_loop h p cs = Inr (r, p', rest) \<and>
           int (dataPtr p') \<le> XBEE_MAX_PACKET_SIZE h \<and>
           length (mem p') = length (mem p) \<and>
           drop (nat (XBEE_MAX_PACKET_SIZE h)) (mem p') =
             drop (nat (XBEE_MAX_PACKET_SIZE h)) (mem p) \<and>
           (r \<noteq> 1 \<longrightarrow> rx_inv h p')"
  using assms
proof (induction cs arbitrary: p)
  case Nil
  then show ?case by (auto simp: rx_inv_def split: rx_state.splits)
next
  case (Cons c cs)
  from rx_inv_char[OF Cons.prems, of c] obtain res p1 where
    step: "XBee_GetPacket_char h p c = Inr (res, p1)"
    and len: "length (mem p1) = length (mem p)"
    and dr: "drop (nat (XBEE_MAX_PACKET_SIZE h)) (mem p1) =
               drop (nat (XBEE_MAX_PACKET_SIZE h)) (mem p)"
    and dp: "int (dataPtr p1) \<le> XBEE_MAX_PACKET_SIZE h"
    and inv1: "res \<noteq> Some 1 \<longrightarrow> rx_inv h p1"
    by blast
  show ?case
  proof (cases res)
    case None
    then have i: "rx_inv h p1" using inv1 by simp
    from Cons.IH[OF i Cons.prems(2)] Cons.prems(3) len
    obtain r p' rest where
      "XBee_GetPacket_loop h p1 cs = Inr (r, p', rest)"
      "length (mem p') = length (mem p1)"
      "drop (nat (XBEE_MAX_PACKET_SIZE h)) (mem p') =
         drop (nat (XBEE_MAX_PACKET_SIZE h)) (mem p1)"
      "int (dataPtr p') \<le> XBEE_MAX_PACKET_SIZE h"
      "r \<noteq> 1 \<longrightarrow> rx_inv h p'"
      by auto
    then show ?thesis using step None len dr by simp
  next
    case (Some r)
    then show ?thesis using step len dr dp inv1 by auto
  qed
qed

text \<open>
  C5. In \<^verbatim>\<open>XBEE_PACKET_RX_LENGTH_1\<close> the two length characters (neither is the start byte,
  which would restart the frame) leave the packet in \<^verbatim>\<open>XBEE_PACKET_RX_PAYLOAD\<close> with the
  length they spell high byte first, cut down to \<^verbatim>\<open>XBEE_MAX_PACKET_SIZE\<close>. And whatever
  characters arrive at a packet that was reset, or is between two characters of a reception
  that began at a reset (\<open>rx_inv\<close>), \<^verbatim>\<open>XBee_GetPacket\<close> ends without an error, the write
  cursor is at most \<^verbatim>\<open>XBEE_MAX_PACKET_SIZE\<close> bytes into the packet, and the bytes of the
  packet from that offset on are untouched; unless it returned 1, the packet is again
  between two characters of such a reception.
\<close>

theorem XBee_GetPacket_clamps:
  assumes "1 \<le> XBEE_MAX_PACKET_SIZE h"
    and "XBEE_MAX_PACKET_SIZE h \<le> int (length (mem packet))"
    and "rx_inv h packet"
  shows
    "(rxState packet = XBEE_PACKET_RX_LENGTH_1 \<and> hi \<noteq> XBEE_PACKET_STARTBYTE h \<and>
        lo \<noteq> XBEE_PACKET_STARTBYTE h \<longrightarrow>
        XBee_GetPacket h True packet [hi, lo] =
          Inr (0, packet\<lparr>length_pk := min (push_bit 8 (uint hi) + uint lo)
                                           (XBEE_MAX_PACKET_SIZE h),
                         rxState := XBEE_PACKET_RX_PAYLOAD\<rparr>, [])) \<and>
     rx_inv h (XBee_ResetPacket other) \<and>
     (\<exists>r packet' rest.
        XBee_GetPacket h True packet serial = Inr (r, packet', rest) \<and>
        int (dataPtr packet') \<le> XBEE_MAX_PACKET_SIZE h \<and>
        length (mem packet') = length (mem packet) \<and>
        drop (nat (XBEE_MAX_PACKET_SIZE h)) (mem packet') =
          drop (nat (XBEE_MAX_PACKET_SIZE h)) (mem packet) \<and>
        (r \<noteq> 1 \<longrightarrow> rx_inv h packet'))"
proof -
  have a: "rxState packet = XBEE_PACKET_RX_LENGTH_1 \<and> hi \<noteq> XBEE_PACKET_STARTBYTE h \<and>
        lo \<noteq> XBEE_PACKET_STARTBYTE h \<longrightarrow>
        XBee_GetPacket h True packet [hi, lo] =
          Inr (0, packet\<lparr>length_pk := min (push_bit 8 (uint hi) + uint lo)
                                           (XBEE_MAX_PACKET_SIZE h),
                         rxState := XBEE_PACKET_RX_PAYLOAD\<rparr>, [])"
    by (simp add: rx_length_1_char rx_length_2_char)
  have b: "rx_inv h (XBee_ResetPacket other)" by (rule rx_inv_Reset)
  have c: "\<exists>r packet' rest.
        XBee_GetPacket h True packet serial = Inr (r, packet', rest) \<and>
        int (dataPtr packet') \<le> XBEE_MAX_PACKET_SIZE h \<and>
        length (mem packet') = length (mem packet) \<and>
        drop (nat (XBEE_MAX_PACKET_SIZE h)) (mem packet') =
          drop (nat (XBEE_MAX_PACKET_SIZE h)) (mem packet) \<and>
        (r \<noteq> 1 \<longrightarrow> rx_inv h packet')"
    using rx_inv_loop[OF assms(3,1,2), of serial] by simp
  from a b c show ?thesis by blast
qed

theorem XBee_GetPacket_clamps_witness:
  "rx_inv xbee_std (XBee_ResetPacket (packet_of []))
   \<and> XBee_GetPacket xbee_std True
        ((XBee_ResetPacket (packet_of []))\<lparr>rxState := XBEE_PACKET_RX_LENGTH_1\<rparr>) [0x02, 0x00]
      = Inr (0, (packet_of [])\<lparr>length_pk := 100, rxState := XBEE_PACKET_RX_PAYLOAD\<rparr>, [])
   \<and> XBee_GetPacket xbee_std True (XBee_ResetPacket (packet_of []))
        ([0x7E, 0x02, 0x00] @ replicate 100 0x11)
      = Inr (0, \<lparr>mem = replicate 100 0x11 @ [0], crc = 0xA4, dataPtr = 100,
                  rxState = XBEE_PACKET_RX_CRC, length_pk = 100, index = 100\<rparr>, [])
   \<and> (\<exists>r packet' rest.
        XBee_GetPacket xbee_std True (XBee_ResetPacket (packet_of []))
          ([0x7E, 0x02, 0x00] @ replicate 100 0x11) = Inr (r, packet', rest) \<and>
        int (dataPtr packet') \<le> 100 \<and> drop 100 (mem packet') = [0])"
proof -
  let ?h = "xbee_std"
  let ?p = "XBee_ResetPacket (packet_of [])"
  let ?q = "?p\<lparr>rxState := XBEE_PACKET_RX_LENGTH_1\<rparr>"
  let ?serial = "[0x7E, 0x02, 0x00] @ replicate 100 0x11 :: uint8 list"
  have m: "XBEE_MAX_PACKET_SIZE ?h = 100" by (simp add: xbee_std_def)
  have a1: "1 \<le> XBEE_MAX_PACKET_SIZE ?h" by (simp add: m)
  have a2: "XBEE_MAX_PACKET_SIZE ?h \<le> int (length (mem ?p))"
    by (simp add: m packet_of_def XBee_ResetPacket_def)
  have a2': "XBEE_MAX_PACKET_SIZE ?h \<le> int (length (mem ?q))"
    by (simp add: m packet_of_def XBee_ResetPacket_def)
  have a3: "rx_inv ?h ?p" by (rule rx_inv_Reset)
  have a3': "rx_inv ?h ?q" by (simp add: rx_inv_def XBee_ResetPacket_def)
  have st: "rxState ?q = XBEE_PACKET_RX_LENGTH_1 \<and> 0x02 \<noteq> XBEE_PACKET_STARTBYTE ?h \<and>
              0x00 \<noteq> XBEE_PACKET_STARTBYTE ?h"
    by (simp add: xbee_std_def)
  have v: "?q\<lparr>length_pk := min (push_bit 8 (uint (0x02 :: uint8)) + uint (0x00 :: uint8))
                               (XBEE_MAX_PACKET_SIZE ?h),
             rxState := XBEE_PACKET_RX_PAYLOAD\<rparr>
           = (packet_of [])\<lparr>length_pk := 100, rxState := XBEE_PACKET_RX_PAYLOAD\<rparr>"
    by code_simp
  have dz: "drop 100 (mem ?p) = [0]" by code_simp
  from XBee_GetPacket_clamps[OF a1 a2' a3', of "0x02" "0x00"] st
  have "XBee_GetPacket ?h True ?q [0x02, 0x00] =
          Inr (0, ?q\<lparr>length_pk := min (push_bit 8 (uint (0x02 :: uint8)) + uint (0x00 :: uint8))
                                       (XBEE_MAX_PACKET_SIZE ?h),
                     rxState := XBEE_PACKET_RX_PAYLOAD\<rparr>, [])"
    by blast
  then have c1: "XBee_GetPacket ?h True ?q [0x02, 0x00] =
      Inr (0, (packet_of [])\<lparr>length_pk := 100, rxState := XBEE_PACKET_RX_PAYLOAD\<rparr>, [])"
    unfolding v .
  have c2: "XBee_GetPacket ?h True ?p ?serial
      = Inr (0, \<lparr>mem = replicate 100 0x11 @ [0], crc = 0xA4, dataPtr = 100,
                  rxState = XBEE_PACKET_RX_CRC, length_pk = 100, index = 100\<rparr>, [])"
    by code_simp
  from XBee_GetPacket_clamps[OF a1 a2 a3, of 0 0 ?p ?serial]
  obtain r packet' rest where
    o: "XBee_GetPacket ?h True ?p ?serial = Inr (r, packet', rest)"
      "int (dataPtr packet') \<le> XBEE_MAX_PACKET_SIZE ?h"
      "drop (nat (XBEE_MAX_PACKET_SIZE ?h)) (mem packet') =
         drop (nat (XBEE_MAX_PACKET_SIZE ?h)) (mem ?p)"
    by blast
  have o2: "int (dataPtr packet') \<le> 100" using o(2) unfolding m .
  have o3: "drop 100 (mem packet') = [0]" using o(3) dz unfolding m by simp
  from o(1) o2 o3
  have c3: "\<exists>r packet' rest.
        XBee_GetPacket ?h True ?p ?serial = Inr (r, packet', rest) \<and>
        int (dataPtr packet') \<le> 100 \<and> drop 100 (mem packet') = [0]"
    by blast
  from a3 c1 c2 c3 show ?thesis by blast
qed

subsection \<open>One character per call\<close>

lemma XBee_GetPacket_each_eq:
  "XBee_GetPacket_loop h p cs = Inr (r, p', []) \<Longrightarrow>
   XBee_GetPacket_each h 0 p cs = Inr (r, p')"
proof (induction cs arbitrary: p)
  case Nil
  then show ?case by simp
next
  case (Cons c cs)
  show ?case
  proof (cases "XBee_GetPacket_char h p c")
    case (Inl e)
    then show ?thesis using Cons.prems by simp
  next
    case (Inr a)
    obtain res p1 where a: "a = (res, p1)" by (cases a)
    show ?thesis
    proof (cases res)
      case None
      with Inr a Cons.prems have "XBee_GetPacket_loop h p1 cs = Inr (r, p', [])"
        by simp
      from Cons.IH[OF this] show ?thesis using Inr a None
        by simp
    next
      case (Some r1)
      with Inr a Cons.prems show ?thesis
        by simp
    qed
  qed
qed

text \<open>
  C6, as the code has it. Whenever one call of \<^verbatim>\<open>XBee_GetPacket\<close> reads all the characters
  offered (it returns at the last one or runs out of them), offering them one per call,
  without a reset in between, ends with the same result and the same packet. That is so
  for a frame that holds no start byte behind its first character and whose payload of 1 to
  \<^verbatim>\<open>XBEE_MAX_PACKET_SIZE\<close> bytes fits the packet: both ways return 1 with the payload
  received.
\<close>

theorem XBee_GetPacket_each_same:
  assumes "payload \<noteq> []"
    and "int (length payload) \<le> XBEE_MAX_PACKET_SIZE h" and "XBEE_MAX_PACKET_SIZE h < 65536"
    and "length payload \<le> length (mem rx)"
    and "XBEE_PACKET_STARTBYTE h \<notin> set (tl (XBee_frame h payload))"
  shows
    "(XBee_GetPacket h True packet serial = Inr (r, packet', []) \<longrightarrow>
        XBee_GetPacket_each h 0 packet serial = Inr (r, packet')) \<and>
     XBee_GetPacket h True (XBee_ResetPacket rx) (XBee_frame h payload) =
       Inr (1, XBee_received rx payload, []) \<and>
     XBee_GetPacket_each h 0 (XBee_ResetPacket rx) (XBee_frame h payload) =
       Inr (1, XBee_received rx payload)"
proof -
  have whole: "XBee_GetPacket_loop h (XBee_ResetPacket rx) (XBee_frame h payload) =
       Inr (1, XBee_received rx payload, [])"
    using rx_frame_reset[OF assms, of "[]"] by simp
  have a: "XBee_GetPacket h True packet serial = Inr (r, packet', []) \<longrightarrow>
        XBee_GetPacket_each h 0 packet serial = Inr (r, packet')"
    by (simp add: XBee_GetPacket_each_eq)
  have b: "XBee_GetPacket h True (XBee_ResetPacket rx) (XBee_frame h payload) =
       Inr (1, XBee_received rx payload, [])"
    using whole by simp
  have c: "XBee_GetPacket_each h 0 (XBee_ResetPacket rx) (XBee_frame h payload) =
       Inr (1, XBee_received rx payload)"
    using whole by (rule XBee_GetPacket_each_eq)
  from a b c show ?thesis by blast
qed

theorem XBee_GetPacket_each_same_witness:
  "XBee_frame xbee_std [0x89, 1, 0] = [0x7E, 0, 3, 0x89, 1, 0, 0x75]
   \<and> XBee_GetPacket xbee_std True (XBee_ResetPacket (packet_of [])) [0x7E, 0, 3, 0x89, 1, 0, 0x75]
      = Inr (1, (packet_of [0x89, 1, 0])\<lparr>crc := 0xFF, dataPtr := 3, index := 3,
                                           length_pk := 3\<rparr>, [])
   \<and> XBee_GetPacket_each xbee_std 0 (XBee_ResetPacket (packet_of []))
        [0x7E, 0, 3, 0x89, 1, 0, 0x75]
      = Inr (1, (packet_of [0x89, 1, 0])\<lparr>crc := 0xFF, dataPtr := 3, index := 3,
                                           length_pk := 3\<rparr>)
   \<and> XBee_GetPacket xbee_std True (packet_of []) [0x7E, 0, 3, 0x89]
      = Inr (0, (packet_of [0x89])\<lparr>crc := 0x89, dataPtr := 1, index := 1, length_pk := 3,
                                     rxState := XBEE_PACKET_RX_PAYLOAD\<rparr>, [])
   \<and> XBee_GetPacket_each xbee_std 0 (packet_of []) [0x7E, 0, 3, 0x89]
      = Inr (0, (packet_of [0x89])\<lparr>crc := 0x89, dataPtr := 1, index := 1, length_pk := 3,
                                     rxState := XBEE_PACKET_RX_PAYLOAD\<rparr>)"
proof -
  let ?h = "xbee_std"
  let ?rx = "packet_of [] :: XBeePacket"
  let ?payload = "[0x89, 1, 0] :: uint8 list"
  let ?f = "[0x7E, 0, 3, 0x89, 1, 0, 0x75] :: uint8 list"
  let ?got = "(packet_of [0x89, 1, 0])\<lparr>crc := 0xFF, dataPtr := 3, index := 3, length_pk := 3\<rparr>"
  let ?part = "(packet_of [0x89])\<lparr>crc := 0x89, dataPtr := 1, index := 1, length_pk := 3,
                                     rxState := XBEE_PACKET_RX_PAYLOAD\<rparr>"
  have f: "XBee_frame ?h ?payload = ?f" by code_simp
  have a1: "?payload \<noteq> []" by simp
  have a2: "int (length ?payload) \<le> XBEE_MAX_PACKET_SIZE ?h" by (simp add: xbee_std_def)
  have a3: "XBEE_MAX_PACKET_SIZE ?h < 65536" by (simp add: xbee_std_def)
  have a4: "length ?payload \<le> length (mem ?rx)" by (simp add: packet_of_def)
  have a5: "XBEE_PACKET_STARTBYTE ?h \<notin> set (tl (XBee_frame ?h ?payload))"
    unfolding f by (simp add: xbee_std_def)
  have g: "XBee_received ?rx ?payload = ?got" by code_simp
  have part: "XBee_GetPacket ?h True ?rx [0x7E, 0, 3, 0x89] = Inr (0, ?part, [])"
    by code_simp
  note t = XBee_GetPacket_each_same[OF a1 a2 a3 a4 a5]
  from t[of ?rx "[0x7E, 0, 3, 0x89]" 0 ?part] part
  have c4: "XBee_GetPacket_each ?h 0 ?rx [0x7E, 0, 3, 0x89] = Inr (0, ?part)"
    by blast
  from t[of ?rx "[]" 0 ?rx]
  have c2: "XBee_GetPacket ?h True (XBee_ResetPacket ?rx) ?f = Inr (1, ?got, [])"
    and c3: "XBee_GetPacket_each ?h 0 (XBee_ResetPacket ?rx) ?f = Inr (1, ?got)"
    unfolding f g by blast+
  from f c2 c3 part c4 show ?thesis by blast
qed

text \<open>
  Where the claim as stated fails: a valid frame whose payload \<^verbatim>\<open>7E 00 01 AA 55\<close> is itself
  a frame. One call returns 1 at the inner checksum and leaves the last character of the
  outer frame unread; offered one per call, the ninth call reads that character and
  returns 0.
\<close>

theorem XBee_GetPacket_each_same_counterexample:
  "XBee_frame xbee_std [0x7E, 0x00, 0x01, 0xAA, 0x55]
      = [0x7E, 0, 5, 0x7E, 0x00, 0x01, 0xAA, 0x55, 0x81]
   \<and> XBee_GetPacket xbee_std True (XBee_ResetPacket (packet_of []))
        [0x7E, 0, 5, 0x7E, 0x00, 0x01, 0xAA, 0x55, 0x81]
      = Inr (1, (packet_of [0xAA])\<lparr>crc := 0xFF, dataPtr := 1, index := 1, length_pk := 1\<rparr>,
             [0x81])
   \<and> XBee_GetPacket_each xbee_std 0 (XBee_ResetPacket (packet_of []))
        [0x7E, 0, 5, 0x7E, 0x00, 0x01, 0xAA, 0x55, 0x81]
      = Inr (0, (packet_of [0xAA])\<lparr>crc := 0xFF, dataPtr := 1, index := 1, length_pk := 1\<rparr>)"
  by code_simp

subsection \<open>The typed readers\<close>

text \<open>
  C3 fails for \<^verbatim>\<open>XBee_ReadIO64Packet\<close>, which tests the kind against \<^verbatim>\<open>XBEE_RX64\<close>. On a
  64-bit I/O packet it returns false and writes nothing. On a 64-bit receive packet it
  writes address, signal strength and options, and then returns false when \<^verbatim>\<open>samples\<close> is
  given (\<^verbatim>\<open>XBee_GetIOValues\<close> refuses the kind) and true when it is \<^verbatim>\<open>NULL\<close>.
\<close>

theorem XBee_ReadIO64Packet_tests_RX64:
  "apiId (packet_of [0x82, 0, 0x13, 0xA2, 0, 0x40, 0x0A, 0x01, 0x27, 40, 0, 1, 0, 5, 0, 5])
     = XBEE_IO64 xbee_std
   \<and> XBee_ReadIO64Packet xbee_std
        (packet_of [0x82, 0, 0x13, 0xA2, 0, 0x40, 0x0A, 0x01, 0x27, 40, 0, 1, 0, 5, 0, 5])
        (Some 0xEEEE) (Some 0xEE) (Some 0xEE) (Some [7, 7, 7, 7, 7, 7, 7, 7, 7])
      = Inr (False, Some 0xEEEE, Some 0xEE, Some 0xEE, Some [7, 7, 7, 7, 7, 7, 7, 7, 7])
   \<and> apiId (packet_of [0x80, 0, 0x13, 0xA2, 0, 0x40, 0x0A, 0x01, 0x27, 40, 0, 0x41, 0x42])
     = XBEE_RX64 xbee_std
   \<and> XBee_ReadIO64Packet xbee_std
        (packet_of [0x80, 0, 0x13, 0xA2, 0, 0x40, 0x0A, 0x01, 0x27, 40, 0, 0x41, 0x42])
        (Some 0xEEEE) (Some 0xEE) (Some 0xEE) (Some [7, 7, 7, 7, 7, 7, 7, 7, 7])
      = Inr (False, Some 0x0100000000000027, Some 40, Some 0, Some [7, 7, 7, 7, 7, 7, 7, 7, 7])
   \<and> XBee_ReadIO64Packet xbee_std
        (packet_of [0x80, 0, 0x13, 0xA2, 0, 0x40, 0x0A, 0x01, 0x27, 40, 0, 0x41, 0x42])
        (Some 0xEEEE) (Some 0xEE) (Some 0xEE) None
      = Inr (True, Some 0x0100000000000027, Some 40, Some 0, None)"
  by code_simp

text \<open>
  The same for every value of the kind tags: a 64-bit I/O packet is refused with all
  outputs as they were.
\<close>

lemma XBee_ReadIO64Packet_refuses_IO64:
  "XBEE_IO64 h \<noteq> XBEE_RX64 h \<Longrightarrow> apiId xbp = XBEE_IO64 h \<Longrightarrow>
   XBee_ReadIO64Packet h xbp a64 s op samples = Inr (False, a64, s, op, samples)"
  by (simp add: XBee_ReadIO64Packet_def)

text \<open>
  For the other readers the result is true exactly on their own kind, and a false result
  leaves every output as it was.
\<close>

lemma XBee_Read_kind:
  "fst (XBee_ReadRX16Packet h xbp a s op d l) \<longleftrightarrow> apiId xbp = XBEE_RX16 h"
  "fst (XBee_ReadRX64Packet h xbp a64 s op d l) \<longleftrightarrow> apiId xbp = XBEE_RX64 h"
  "fst (XBee_ReadAtResponsePacket h xbp f cmd s d) \<longleftrightarrow> apiId xbp = XBEE_ATCOMMANDRESPONSE h"
  "fst (XBee_ReadTXStatusPacket h xbp f s) \<longleftrightarrow> apiId xbp = XBEE_TXSTATUS h"
  by (simp_all add: XBee_ReadRX16Packet_def XBee_ReadRX64Packet_def
      XBee_ReadAtResponsePacket_def XBee_ReadTXStatusPacket_def)

lemma XBee_Read_untouched:
  "apiId xbp \<noteq> XBEE_RX16 h \<Longrightarrow>
     XBee_ReadRX16Packet h xbp a s op d l = (False, a, s, op, d, l)"
  "apiId xbp \<noteq> XBEE_RX64 h \<Longrightarrow>
     XBee_ReadRX64Packet h xbp a64 s op d l = (False, a64, s, op, d, l)"
  "apiId xbp \<noteq> XBEE_ATCOMMANDRESPONSE h \<Longrightarrow>
     XBee_ReadAtResponsePacket h xbp f cmd s d = (False, f, cmd, s, d)"
  "apiId xbp \<noteq> XBEE_TXSTATUS h \<Longrightarrow>
     XBee_ReadTXStatusPacket h xbp f s = (False, f, s)"
  "apiId xbp \<noteq> XBEE_IO16 h \<Longrightarrow>
     XBee_ReadIO16Packet h xbp a s op samples = Inr (False, a, s, op, samples)"
  by (simp_all add: XBee_ReadRX16Packet_def XBee_ReadRX64Packet_def
      XBee_ReadAtResponsePacket_def XBee_ReadTXStatusPacket_def XBee_ReadIO16Packet_def)

text \<open>
  What the address loop of the 64-bit readers leaves in the caller's variable: the shifts
  by 0, 8, 16, ..., 56 bits push out its old value and the first six bytes of the address.
\<close>

lemma XBee_address64_eq:
  "XBee_address64 m source a =
     push_bit 56 (ucast (m ! (source + 6))) + ucast (m ! (source + 7))"
proof -
  have u: "[0..<8] = [0, 1, 2, 3, 4, 5, 6, 7]" by (simp add: upt_rec)
  have p: "push_bit 104 (x :: uint64) = 0" for x
    by (rule push_bit_word_beyond) simp
  have "push_bit 56 (push_bit 48 x + ucast (m ! (source + 6))) =
          push_bit 56 (ucast (m ! (source + 6)) :: uint64)" for x :: uint64
    by (simp add: push_bit_add p)
  then show ?thesis
    unfolding XBee_address64_def u by simp
qed



text \<open>
  C10. For the four readers that only copy fields: called with \<^verbatim>\<open>NULL\<close> in place of any of
  the output pointers (\<open>null_if\<close> with a true flag), the reader returns the same boolean,
  leaves in each remaining variable the value it leaves there when all pointers are given,
  and has nothing to write for the others.
\<close>

theorem XBee_Read_NULL:
  "XBee_ReadRX16Packet h xbp (null_if n1 a) (null_if n2 s) (null_if n3 op) (null_if n4 d)
       (null_if n5 l)
     = (case XBee_ReadRX16Packet h xbp a s op d l of
          (r, a', s', op', d', l') \<Rightarrow>
            (r, null_if n1 a', null_if n2 s', null_if n3 op', null_if n4 d', null_if n5 l')) \<and>
   XBee_ReadRX64Packet h xbp (null_if n1 a64) (null_if n2 s) (null_if n3 op) (null_if n4 d)
       (null_if n5 l)
     = (case XBee_ReadRX64Packet h xbp a64 s op d l of
          (r, a', s', op', d', l') \<Rightarrow>
            (r, null_if n1 a', null_if n2 s', null_if n3 op', null_if n4 d', null_if n5 l')) \<and>
   XBee_ReadAtResponsePacket h xbp (null_if n1 f) (null_if n2 cmd) (null_if n3 s) (null_if n4 d)
     = (case XBee_ReadAtResponsePacket h xbp f cmd s d of
          (r, f', cmd', s', d') \<Rightarrow>
            (r, null_if n1 f', null_if n2 cmd', null_if n3 s', null_if n4 d')) \<and>
   XBee_ReadTXStatusPacket h xbp (null_if n1 f) (null_if n2 s)
     = (case XBee_ReadTXStatusPacket h xbp f s of
          (r, f', s') \<Rightarrow> (r, null_if n1 f', null_if n2 s'))"
  by (simp add: XBee_ReadRX16Packet_def XBee_ReadRX64Packet_def XBee_ReadAtResponsePacket_def
      XBee_ReadTXStatusPacket_def null_if_def out_def)

theorem XBee_Read_NULL_witness:
  "XBee_ReadRX16Packet xbee_std (packet_of [0x81, 0x12, 0x34, 40, 0, 0x41])
       (Some 0) (Some 0) (Some 0) (Some 0) (Some 0)
     = (True, Some 0x1234, Some 40, Some 0, Some 5, Some 0xFB)
   \<and> XBee_ReadRX16Packet xbee_std (packet_of [0x81, 0x12, 0x34, 40, 0, 0x41])
       (Some 0) None (Some 0) None None
     = (True, Some 0x1234, None, Some 0, None, None)"
proof -
  let ?p = "packet_of [0x81, 0x12, 0x34, 40, 0, 0x41]"
  have all: "XBee_ReadRX16Packet xbee_std ?p (Some 0) (Some 0) (Some 0) (Some 0) (Some 0)
     = (True, Some 0x1234, Some 40, Some 0, Some 5, Some 0xFB)"
    by code_simp
  from XBee_Read_NULL[of xbee_std ?p False "Some 0" True "Some 0" False "Some 0" True "Some 0"
      True "Some 0"]
  have "XBee_ReadRX16Packet xbee_std ?p (null_if False (Some 0)) (null_if True (Some 0))
          (null_if False (Some 0)) (null_if True (Some 0)) (null_if True (Some 0))
     = (case XBee_ReadRX16Packet xbee_std ?p (Some 0) (Some 0) (Some 0) (Some 0) (Some 0) of
          (r, a', s', op', d', l') \<Rightarrow>
            (r, null_if False a', null_if True s', null_if False op', null_if True d',
             null_if True l'))"
    by blast
  then have "XBee_ReadRX16Packet xbee_std ?p (Some 0) None (Some 0) None None
     = (True, Some 0x1234, None, Some 0, None, None)"
    unfolding all by (simp add: null_if_def)
  with all show ?thesis by blast
qed

subsection \<open>I/O samples\<close>

text \<open>
  C7 fails when the channel indicators are scanned past the nine digital lines. The
  scenario of the claim, a 16-bit I/O packet whose indicators and digital sample are both
  \<^verbatim>\<open>0x0005\<close>, read into an array of nine: with 15 indicators the six analog channels, all
  off, store 0 at the indices 0 to 5 and nothing is left of the digital lines 0 and 2.
\<close>

theorem XBee_ReadIO16Packet_digital_overwritten:
  "XBee_ReadIO16Packet xbee_std (packet_of [0x83, 0x12, 0x34, 40, 0, 1, 0x00, 0x05, 0x00, 0x05])
     None None None (Some [7, 7, 7, 7, 7, 7, 7, 7, 7])
     = Inr (True, None, None, None, Some [0, 0, 0, 0, 0, 0, 0, 0, 0])"
  by code_simp

text \<open>
  The values of the claim come out when the scan stops at the ninth indicator, so that
  the branch for the analog channels never runs.
\<close>

lemma XBee_ReadIO16Packet_nine_indicators:
  "XBee_ReadIO16Packet (xbee_std\<lparr>XBEE_INPUTS := 9\<rparr>)
     (packet_of [0x83, 0x12, 0x34, 40, 0, 1, 0x00, 0x05, 0x00, 0x05])
     None None None (Some [7, 7, 7, 7, 7, 7, 7, 7, 7])
     = Inr (True, None, None, None, Some [1023, 0, 1023, 0, 0, 0, 0, 0, 0])"
  by code_simp

text \<open>
  With any larger number of indicators the channel at \<^verbatim>\<open>i = 9\<close>, which the scenario has
  off, stores 0 at index 0, and no later channel writes there.
\<close>

lemma XBee_GetIOValues_loop_analog_off:
  "\<forall>i\<in>set later. 9 < i \<Longrightarrow>
   XBee_GetIOValues_loop m later 0 digitalins p inputs = Inr result \<Longrightarrow>
   result ! 0 = inputs ! 0"
proof (induction later arbitrary: inputs)
  case Nil
  then show ?case by simp
next
  case (Cons i later)
  then have i: "9 < i" by simp
  from Cons.prems(2) i
  have "XBee_GetIOValues_loop m later 0 digitalins p (inputs[i - 9 := 0]) = Inr result"
    by (simp split: if_splits)
  with Cons.IH[of "inputs[i - 9 := 0]"] Cons.prems(1) i show ?case
    by simp
qed

lemma XBee_ReadIO16Packet_index_0:
  assumes "10 \<le> XBEE_INPUTS h" and "apiId xbp = XBEE_IO16 h"
    and "take 4 (drop io16_channelIndicators (mem xbp)) = [0x00, 0x05, 0x00, 0x05]"
    and "XBee_ReadIO16Packet h xbp None None None (Some [i0, i1, i2, i3, i4, i5, i6, i7, i8])
           = Inr (r, a, s, op, Some result)"
  shows "result ! 0 = 0"
proof -
  obtain k where n: "XBEE_INPUTS h = 10 + k"
    using assms(1) by (metis le_Suc_ex)
  have "[0..<10] = [0, 1, 2, 3, 4, 5, 6, 7, 8, 9 :: nat]" by code_simp
  moreover have "[0..<10 + k] = [0..<10] @ [10..<10 + k]"
    by (rule upt_add_eq_append) simp
  ultimately have u: "[0..<XBEE_INPUTS h] = [0, 1, 2, 3, 4, 5, 6, 7, 8, 9] @ [10..<10 + k]"
    unfolding n by simp
  have "length (take 4 (drop io16_channelIndicators (mem xbp))) = 4"
    unfolding assms(3) by simp
  then have len: "10 \<le> length (mem xbp)"
    by (simp add: io16_channelIndicators_def)
  have nth: "mem xbp ! (6 + j) = [0x00, 0x05, 0x00, 0x05] ! j" if "j < 4" for j
  proof -
    have "take 4 (drop 6 (mem xbp)) ! j = mem xbp ! (6 + j)"
      using that len by simp
    then show ?thesis using assms(3) by (simp add: io16_channelIndicators_def)
  qed
  from nth[of 0] nth[of 1] nth[of 2] nth[of 3]
  have b: "mem xbp ! 6 = 0" "mem xbp ! 7 = 5" "mem xbp ! 8 = 0" "mem xbp ! 9 = 5"
    by simp_all
  from assms(4) have
    "XBee_GetIOValues_loop (mem xbp) [10..<10 + k] 0 5 10 [0, 0, 1023, 0, 0, 0, 0, 0, 0]
       = Inr result"
    using assms(2) len b
    by (simp add: XBee_ReadIO16Packet_def XBee_GetIOValues_def u layout_defs
        split: sum.splits if_splits)
  from XBee_GetIOValues_loop_analog_off[OF _ this] show ?thesis by simp
qed

subsection \<open>Entering API mode\<close>

text \<open>
  C8. With the subsystem active the function makes three calls in this order: it writes
  the three characters \<^verbatim>\<open>+++\<close>, it calls \<^verbatim>\<open>Sleep( 1025 )\<close>, and it writes \<^verbatim>\<open>ATAP 1,CN\<close> followed
  by a carriage return. Nothing is written between the first write and the sleep.
\<close>

theorem XBeeConfig_SetPacketApiMode_calls:
  "XBeeConfig_SetPacketApiMode True =
     [Serial_Write ''+++'', Sleep 1025, Serial_Write (''ATAP 1,CN'' @ [CHR 0x0D])]"
  by (simp add: XBeeConfig_SetPacketApiMode_def snprintf_def hex_digit_def)

end
